theory Spec2Isabelle
  imports Main "HOL-Library.Multiset" "HOL-Library.Product_Lexorder" "HOL-Library.Word"
begin

section \<open>Values of the JavaScript side\<close>

text \<open>
  A JavaScript string is a sequence of UTF-16 code units. \<open>js\<close> gives the string a
  literal of ASCII characters denotes: a string literal of the source, or the text of an
  example.
\<close>

type_synonym jsstring = "16 word list"

definition code_unit :: "char \<Rightarrow> 16 word" where
  "code_unit c = of_char c"

definition js :: "string \<Rightarrow> jsstring" where
  "js s = map code_unit s"

text \<open>The two values of the schema's \<^verbatim>\<open>enum: ['pending', 'completed']\<close>.\<close>

definition pending :: jsstring where
  "pending = js ''pending''"

definition completed :: jsstring where
  "completed = js ''completed''"

text \<open>
  The values a request body can hold after \<^verbatim>\<open>bodyParser.json()\<close>, and \<open>JUndefined\<close>
  for what destructuring yields when a member is missing. A JSON number is kept when it
  is an integer: the handlers only test a number for zero and hand it to the \<^verbatim>\<open>Date\<close>
  constructor.
\<close>

datatype json =
    JUndefined
  | JNull
  | JBool bool
  | JNum int
  | JStr jsstring
  | JArr "json list"
  | JObj "(string \<times> json) list"

text \<open>\<^verbatim>\<open>!v\<close> is \<open>\<not> truthy v\<close>.\<close>

fun truthy :: "json \<Rightarrow> bool" where
  "truthy JUndefined = False"
| "truthy JNull = False"
| "truthy (JBool b) = b"
| "truthy (JNum n) = (n \<noteq> 0)"
| "truthy (JStr s) = (s \<noteq> [])"
| "truthy (JArr _) = True"
| "truthy (JObj _) = True"

text \<open>
  \<^verbatim>\<open>req.body\<close> is an object; \<^verbatim>\<open>const { task, dueDate } = req.body\<close> reads its members.
  A property name is kept as the bytes that spell it: names are only compared.
\<close>

type_synonym body = "string \<rightharpoonup> json"

definition destructure :: "body \<Rightarrow> string \<Rightarrow> json" where
  "destructure b k = (case b k of None \<Rightarrow> JUndefined | Some v \<Rightarrow> v)"

text \<open>
  \<^verbatim>\<open>String.prototype.trim\<close> removes, at both ends, the code units of ECMAScript's
  WhiteSpace and LineTerminator productions: tab, line feed, vertical tab, form feed,
  carriage return, space, no-break space (U+00A0), U+1680, U+2000 to U+200A, the line
  and paragraph separators (U+2028, U+2029), U+202F, U+205F, U+3000 and the byte order
  mark (U+FEFF). The schema's \<^verbatim>\<open>trim: true\<close> calls the same method.
\<close>

definition is_space :: "16 word \<Rightarrow> bool" where
  "is_space c =
     (c \<in> {0x0009, 0x000A, 0x000B, 0x000C, 0x000D, 0x0020, 0x00A0, 0x1680,
            0x2028, 0x2029, 0x202F, 0x205F, 0x3000, 0xFEFF}
      \<or> (0x2000 \<le> c \<and> c \<le> 0x200A))"

definition trim :: "jsstring \<Rightarrow> jsstring" where
  "trim s = rev (dropWhile is_space (rev (dropWhile is_space s)))"

datatype path_error =
    ValidatorError string
  | CastFailure
  | EnumFailure

text \<open>
  The exceptions that reach a \<^verbatim>\<open>catch\<close> block. The handlers read only
  \<^verbatim>\<open>error.message\<close>; a response that echoes the message holds the error it is read from.
\<close>

datatype js_error =
    Error string
  | TypeError
  | URIError
  | CastError string
  | ValidationError "(string \<times> path_error) list"
  | DuplicateKey string
  | MongoError string

text \<open>\<^verbatim>\<open>task.trim()\<close>: only a string has the method, any other value throws.\<close>

fun js_trim :: "json \<Rightarrow> js_error + jsstring" where
  "js_trim (JStr s) = Inr (trim s)"
| "js_trim _ = Inl TypeError"

text \<open>A \<^verbatim>\<open>Date\<close> object: a time value in milliseconds, or Invalid Date.\<close>

datatype jsdate = Time int | InvalidDate

text \<open>
  \<^verbatim>\<open>new Date(v)\<close> first converts \<open>v\<close> to a primitive, and that conversion throws a
  TypeError when no method gives one. For a value parsed from JSON: an object with a
  member named \<open>toString\<close> has a \<^verbatim>\<open>toString\<close> that cannot be called, and its \<^verbatim>\<open>valueOf\<close>
  (its own member, or the inherited one, which returns the object) gives no primitive;
  an array is joined, which converts each element that is not \<^verbatim>\<open>null\<close> to a string the
  same way. Every other value converts.
\<close>

fun toPrimitive_throws :: "json \<Rightarrow> bool" where
  "toPrimitive_throws (JObj members) = (''toString'' \<in> fst ` set members)"
| "toPrimitive_throws (JArr elements) = list_ex toPrimitive_throws elements"
| "toPrimitive_throws _ = False"

section \<open>The platform the server runs on\<close>

text \<open>
  What the handlers call and the repository does not define:
  \<^item> \<open>ObjectId\<close>: the identifier an id string denotes, in the form every response
    carries it, or \<open>None\<close> when the string is no identifier;
  \<^item> \<open>newObjectId\<close>: the identifier the generator gives to the n-th document built;
  \<^item> \<open>dateValue\<close>: the date \<^verbatim>\<open>new Date(v)\<close> holds when the conversion of \<open>v\<close> to a primitive
    succeeds (the parsing of strings is left to the engine);
  \<^item> \<open>decodeURIComponent\<close>: the function of that name, \<open>None\<close> when it throws a URIError;
  \<^item> \<open>NODE_ENV\<close>: the environment variable of that name.
\<close>

record env =
  ObjectId :: "string \<Rightarrow> string option"
  newObjectId :: "nat \<Rightarrow> string"
  dateValue :: "json \<Rightarrow> jsdate"
  decodeURIComponent :: "string \<Rightarrow> string option"
  NODE_ENV :: "string option"

text \<open>\<^verbatim>\<open>mongoose.Types.ObjectId.isValid(id)\<close>: whether an identifier can be built from \<open>id\<close>.\<close>

definition isValid :: "env \<Rightarrow> string \<Rightarrow> bool" where
  "isValid e i = (ObjectId e i \<noteq> None)"

text \<open>\<^verbatim>\<open>new Date(v)\<close>: the date built, or the TypeError thrown.\<close>

definition new_Date :: "env \<Rightarrow> json \<Rightarrow> js_error + jsdate" where
  "new_Date e v = (if toPrimitive_throws v then Inl TypeError else Inr (dateValue e v))"

section \<open>The collection\<close>

text \<open>
  Mongoose and the MongoDB driver are libraries, not code of the repository. The
  operations of this section model what the handlers rely on: the schema of server.js
  (\<open>task\<close> a required, trimmed string; \<open>dueDate\<close> a required date; \<open>status\<close> one of two
  strings, \<open>pending\<close> by default; timestamps), casting and validation before any write,
  and a collection in which an operation on an id touches the first document of that id.
\<close>

text \<open>
  A document of \<^verbatim>\<open>todoSchema\<close> with \<^verbatim>\<open>timestamps: true\<close>; \<open>oid\<close> is \<^verbatim>\<open>_id\<close>. The same
  record stands for its JSON form in a response and in the client's cache.
\<close>

record todo =
  oid :: string
  task :: jsstring
  dueDate :: int
  status :: jsstring
  createdAt :: int
  updatedAt :: int

text \<open>
  The state behind the model \<^verbatim>\<open>Todo\<close>: the documents in insertion order, the number of
  documents built so far, the time of the store's clock, and \<open>outage\<close>, the message of
  the error every storage operation fails with while the store cannot be reached.
\<close>

record mongo =
  docs :: "todo list"
  issued :: nat
  now :: int
  outage :: "string option"

fun update_first :: "('a \<Rightarrow> bool) \<Rightarrow> ('a \<Rightarrow> 'a) \<Rightarrow> 'a list \<Rightarrow> 'a list" where
  "update_first P f [] = []"
| "update_first P f (x # xs) = (if P x then f x # xs else x # update_first P f xs)"

fun remove_first :: "('a \<Rightarrow> bool) \<Rightarrow> 'a list \<Rightarrow> 'a list" where
  "remove_first P [] = []"
| "remove_first P (x # xs) = (if P x then xs else x # remove_first P xs)"

text \<open>\<^verbatim>\<open>Todo.find().sort({ dueDate: 1, createdAt: -1 }).exec()\<close>\<close>

definition sort_spec :: "todo \<Rightarrow> int \<times> int" where
  "sort_spec t = (dueDate t, - createdAt t)"

definition Todo_find_sort :: "mongo \<Rightarrow> js_error + todo list" where
  "Todo_find_sort db =
     (case outage db of
        Some m \<Rightarrow> Inl (MongoError m)
      | None \<Rightarrow> Inr (sort_key sort_spec (docs db)))"

text \<open>
  \<^verbatim>\<open>new Todo({ task, dueDate }).save()\<close>: the document gets its \<^verbatim>\<open>_id\<close> when it is built;
  \<^verbatim>\<open>save\<close> validates it against the schema (\<open>task\<close> trimmed and required, \<open>dueDate\<close> a
  valid date), then inserts it with the default status and both timestamps. The unique
  index on \<^verbatim>\<open>_id\<close> refuses an identifier that is already stored.
\<close>

definition Todo_save :: "env \<Rightarrow> mongo \<Rightarrow> jsstring \<Rightarrow> jsdate \<Rightarrow> mongo \<times> (js_error + todo)" where
  "Todo_save e db tk d =
     (let new_id = newObjectId e (issued db);
          db1 = db\<lparr>issued := Suc (issued db)\<rparr>;
          errs = (if trim tk = [] then [(''task'', ValidatorError ''Task is required'')] else [])
               @ (if d = InvalidDate then [(''dueDate'', CastFailure)] else [])
      in case d of
           Time ms \<Rightarrow>
             if errs \<noteq> [] then (db1, Inl (ValidationError errs))
             else (case outage db of
                Some m \<Rightarrow> (db1, Inl (MongoError m))
              | None \<Rightarrow>
                  if new_id \<in> oid ` set (docs db) then (db1, Inl (DuplicateKey new_id))
                  else (let doc = \<lparr>oid = new_id, task = trim tk, dueDate = ms,
                                   status = pending, createdAt = now db, updatedAt = now db\<rparr>
                        in (db1\<lparr>docs := docs db @ [doc]\<rparr>, Inr doc)))
         | InvalidDate \<Rightarrow> (db1, Inl (ValidationError errs)))"

text \<open>The object \<^verbatim>\<open>updateData\<close>: a member is \<open>None\<close> when it was never assigned.\<close>

record updateData =
  set_task :: "jsstring option"
  set_dueDate :: "jsdate option"
  set_status :: "jsstring option"

definition apply_update :: "updateData \<Rightarrow> int \<Rightarrow> todo \<Rightarrow> todo" where
  "apply_update u t old =
     old\<lparr>task := (case set_task u of None \<Rightarrow> task old | Some v \<Rightarrow> trim v),
         dueDate := (case set_dueDate u of Some (Time ms) \<Rightarrow> ms | _ \<Rightarrow> dueDate old),
         status := (case set_status u of None \<Rightarrow> status old | Some v \<Rightarrow> v),
         updatedAt := t\<rparr>"

text \<open>
  \<^verbatim>\<open>Todo.findByIdAndUpdate(id, updateData, { new: true, runValidators: true })\<close>: the id
  and the update are cast to the schema's types, the validators run on the members that
  are set, then the first document with that \<^verbatim>\<open>_id\<close> is updated (with its \<^verbatim>\<open>updatedAt\<close>)
  and returned as it is after the update; \<open>None\<close> is \<^verbatim>\<open>null\<close>, no such document.
\<close>

definition Todo_findByIdAndUpdate ::
  "env \<Rightarrow> mongo \<Rightarrow> string \<Rightarrow> updateData \<Rightarrow> mongo \<times> (js_error + todo option)" where
  "Todo_findByIdAndUpdate e db i u =
     (case ObjectId e i of
        None \<Rightarrow> (db, Inl (CastError ''_id''))
      | Some k \<Rightarrow>
          if set_dueDate u = Some InvalidDate then (db, Inl (CastError ''dueDate''))
          else (let errs =
                  (case set_task u of
                     None \<Rightarrow> []
                   | Some v \<Rightarrow> if trim v = [] then [(''task'', ValidatorError ''Task is required'')] else [])
                  @ (case set_status u of
                     None \<Rightarrow> []
                   | Some v \<Rightarrow> if v \<in> {pending, completed} then [] else [(''status'', EnumFailure)])
                in if errs \<noteq> [] then (db, Inl (ValidationError errs))
                   else (case outage db of
                      Some m \<Rightarrow> (db, Inl (MongoError m))
                    | None \<Rightarrow>
                        (case find (\<lambda>t. oid t = k) (docs db) of
                           None \<Rightarrow> (db, Inr None)
                         | Some old \<Rightarrow>
                             (db\<lparr>docs := update_first (\<lambda>t. oid t = k) (apply_update u (now db)) (docs db)\<rparr>,
                              Inr (Some (apply_update u (now db) old)))))))"

text \<open>\<^verbatim>\<open>Todo.findByIdAndDelete(id)\<close>: removes the first document with that \<^verbatim>\<open>_id\<close> and returns it.\<close>

definition Todo_findByIdAndDelete ::
  "env \<Rightarrow> mongo \<Rightarrow> string \<Rightarrow> mongo \<times> (js_error + todo option)" where
  "Todo_findByIdAndDelete e db i =
     (case ObjectId e i of
        None \<Rightarrow> (db, Inl (CastError ''_id''))
      | Some k \<Rightarrow>
          (case outage db of
             Some m \<Rightarrow> (db, Inl (MongoError m))
           | None \<Rightarrow>
               (case find (\<lambda>t. oid t = k) (docs db) of
                  None \<Rightarrow> (db, Inr None)
                | Some old \<Rightarrow> (db\<lparr>docs := remove_first (\<lambda>t. oid t = k) (docs db)\<rparr>, Inr (Some old)))))"

section \<open>The request handlers of server.js\<close>

text \<open>
  The JSON bodies the handlers send:
  \<^item> \<open>TodoArray\<close>: \<^verbatim>\<open>res.json(todos)\<close>;
  \<^item> \<open>TodoDoc\<close>: \<^verbatim>\<open>res.json(savedTodo)\<close>, \<^verbatim>\<open>res.json(updatedTodo)\<close>;
  \<^item> \<open>ErrorMessage e\<close>: \<^verbatim>\<open>{ message: error.message }\<close>;
  \<^item> \<open>Required m t d\<close>: \<^verbatim>\<open>{ message, details: { task, dueDate } }\<close>, \<open>None\<close> for \<^verbatim>\<open>null\<close>;
  \<^item> \<open>Message m\<close>: \<^verbatim>\<open>{ message }\<close>;
  \<^item> \<open>Failed m e\<close>: \<^verbatim>\<open>{ message, error }\<close>, \<open>Some e\<close> for the message of \<open>e\<close> and \<open>None\<close> for
    \<^verbatim>\<open>undefined\<close>;
  \<^item> \<open>Deleted m t\<close>: \<^verbatim>\<open>{ message, deletedTodo }\<close>.
\<close>

datatype payload =
    TodoArray "todo list"
  | TodoDoc todo
  | ErrorMessage js_error
  | Required string "string option" "string option"
  | Message string
  | Failed string "js_error option"
  | Deleted string todo

record response =
  statusCode :: nat
  payload :: payload

text \<open>\<^verbatim>\<open>app.get('/todos', ...)\<close>\<close>

definition get_todos :: "mongo \<Rightarrow> mongo \<times> response" where
  "get_todos db =
     (case Todo_find_sort db of
        Inr todos \<Rightarrow> (db, \<lparr>statusCode = 200, payload = TodoArray todos\<rparr>)
      | Inl error \<Rightarrow> (db, \<lparr>statusCode = 500, payload = ErrorMessage error\<rparr>))"

text \<open>\<^verbatim>\<open>app.post('/todos', ...)\<close>\<close>

definition post_todos :: "env \<Rightarrow> mongo \<Rightarrow> body \<Rightarrow> mongo \<times> response" where
  "post_todos e db b =
     (let task = destructure b ''task''; dueDate = destructure b ''dueDate'' in
      if \<not> truthy task \<or> \<not> truthy dueDate then
        (db, \<lparr>statusCode = 400,
              payload = Required ''Task and due date are required''
                (if \<not> truthy task then Some ''Task is required'' else None)
                (if \<not> truthy dueDate then Some ''Due date is required'' else None)\<rparr>)
      else
        (case js_trim task of
           Inl error \<Rightarrow>
             (db, \<lparr>statusCode = 500, payload = Failed ''Failed to create todo'' (Some error)\<rparr>)
         | Inr trimmed \<Rightarrow>
             (case new_Date e dueDate of
                Inl error \<Rightarrow>
                  (db, \<lparr>statusCode = 500, payload = Failed ''Failed to create todo'' (Some error)\<rparr>)
              | Inr date \<Rightarrow>
                  (case Todo_save e db trimmed date of
                     (db', Inl error) \<Rightarrow>
                       (db', \<lparr>statusCode = 500,
                              payload = Failed ''Failed to create todo'' (Some error)\<rparr>)
                   | (db', Inr savedTodo) \<Rightarrow>
                       (db', \<lparr>statusCode = 201, payload = TodoDoc savedTodo\<rparr>)))))"

text \<open>\<^verbatim>\<open>app.put('/todos/:id', ...)\<close>\<close>

definition put_todo :: "env \<Rightarrow> mongo \<Rightarrow> string \<Rightarrow> body \<Rightarrow> mongo \<times> response" where
  "put_todo e db i b =
     (let task = destructure b ''task''; dueDate = destructure b ''dueDate'';
          status = destructure b ''status'' in
      if \<not> isValid e i then
        (db, \<lparr>statusCode = 400, payload = Message ''Invalid todo ID format''\<rparr>)
      else
        (case (if task \<noteq> JUndefined then map_sum (\<lambda>x. x) Some (js_trim task) else Inr None) of
           Inl error \<Rightarrow>
             (db, \<lparr>statusCode = 500, payload = Failed ''Failed to update todo'' (Some error)\<rparr>)
         | Inr upd_task \<Rightarrow>
             (case (if dueDate \<noteq> JUndefined then map_sum (\<lambda>x. x) Some (new_Date e dueDate)
                    else Inr None) of
                Inl error \<Rightarrow>
                  (db, \<lparr>statusCode = 500,
                        payload = Failed ''Failed to update todo'' (Some error)\<rparr>)
              | Inr upd_dueDate \<Rightarrow>
                  if status \<noteq> JUndefined \<and> status \<notin> {JStr pending, JStr completed} then
                    (db, \<lparr>statusCode = 400, payload = Message ''Invalid status value''\<rparr>)
                  else
                    (let updateData = \<lparr>set_task = upd_task, set_dueDate = upd_dueDate,
                           set_status = (case status of JStr v \<Rightarrow> Some v | _ \<Rightarrow> None)\<rparr>
                     in case Todo_findByIdAndUpdate e db i updateData of
                          (db', Inl error) \<Rightarrow>
                            (db', \<lparr>statusCode = 500,
                                   payload = Failed ''Failed to update todo'' (Some error)\<rparr>)
                        | (db', Inr None) \<Rightarrow>
                            (db', \<lparr>statusCode = 404, payload = Message ''Todo not found''\<rparr>)
                        | (db', Inr (Some updatedTodo)) \<Rightarrow>
                            (db', \<lparr>statusCode = 200, payload = TodoDoc updatedTodo\<rparr>)))))"

text \<open>\<^verbatim>\<open>app.delete('/todos/:id', ...)\<close>\<close>

definition delete_todo :: "env \<Rightarrow> mongo \<Rightarrow> string \<Rightarrow> mongo \<times> response" where
  "delete_todo e db i =
     (if \<not> isValid e i then
        (db, \<lparr>statusCode = 400, payload = Message ''Invalid todo ID format''\<rparr>)
      else
        (case Todo_findByIdAndDelete e db i of
           (db', Inl error) \<Rightarrow>
             (db', \<lparr>statusCode = 500, payload = Failed ''Failed to delete todo'' (Some error)\<rparr>)
         | (db', Inr None) \<Rightarrow>
             (db', \<lparr>statusCode = 404, payload = Message ''Todo not found''\<rparr>)
         | (db', Inr (Some deletedTodo)) \<Rightarrow>
             (db', \<lparr>statusCode = 200,
                    payload = Deleted ''Todo deleted successfully'' deletedTodo\<rparr>)))"

text \<open>The error handling middleware, \<^verbatim>\<open>app.use((err, req, res, next) => ...)\<close>\<close>

definition error_middleware :: "env \<Rightarrow> js_error \<Rightarrow> response" where
  "error_middleware e err =
     \<lparr>statusCode = 500,
      payload = Failed ''Internal server error''
        (if NODE_ENV e = Some ''development'' then Some err else None)\<rparr>"

text \<open>
  The routes \<^verbatim>\<open>/todos/:id\<close>: the router decodes the path segment into \<^verbatim>\<open>req.params.id\<close>
  before it calls the handler; when the decoding throws, the error goes to the error
  handling middleware and the handler does not run.
\<close>

definition put_route :: "env \<Rightarrow> mongo \<Rightarrow> string \<Rightarrow> body \<Rightarrow> mongo \<times> response" where
  "put_route e db segment b =
     (case decodeURIComponent e segment of
        None \<Rightarrow> (db, error_middleware e URIError)
      | Some i \<Rightarrow> put_todo e db i b)"

definition delete_route :: "env \<Rightarrow> mongo \<Rightarrow> string \<Rightarrow> mongo \<times> response" where
  "delete_route e db segment =
     (case decodeURIComponent e segment of
        None \<Rightarrow> (db, error_middleware e URIError)
      | Some i \<Rightarrow> delete_todo e db i)"

section \<open>The client's state manager, js/main.js\<close>

text \<open>\<^verbatim>\<open>response.ok\<close>\<close>

definition ok :: "response \<Rightarrow> bool" where
  "ok r = (200 \<le> statusCode r \<and> statusCode r \<le> 299)"

text \<open>\<^verbatim>\<open>Array.prototype.findIndex\<close>, \<open>-1\<close> when no element satisfies the predicate.\<close>

fun findIndex :: "('a \<Rightarrow> bool) \<Rightarrow> 'a list \<Rightarrow> int" where
  "findIndex P [] = - 1"
| "findIndex P (x # xs) =
     (if P x then 0 else (let i = findIndex P xs in if i = - 1 then - 1 else i + 1))"

text \<open>
  \<^verbatim>\<open>TodoManager.toggleTodoStatus(id)\<close> on the cache \<^verbatim>\<open>this.todos\<close> and the server behind
  \<^verbatim>\<open>fetch\<close>, which delivers the request to the PUT handler and the handler's response
  back. The result is the value returned or the error thrown, with the cache and the
  server's state as the call leaves them. A successful response of the PUT handler
  always carries a document (\<open>put_todo_ok_doc\<close> below), so the last case never runs.
\<close>

definition toggleTodoStatus ::
  "env \<Rightarrow> string \<Rightarrow> todo list \<times> mongo \<Rightarrow> (js_error + todo) \<times> todo list \<times> mongo" where
  "toggleTodoStatus e i st =
     (case st of (todos, db) \<Rightarrow>
        (case find (\<lambda>t. oid t = i) todos of
           None \<Rightarrow> (Inl (Error ''Todo not found''), todos, db)
         | Some todo \<Rightarrow>
             (case put_todo e db i
                     [''status'' \<mapsto> JStr (if status todo = pending then completed else pending)] of
                (db', response) \<Rightarrow>
                  if \<not> ok response then
                    (Inl (Error ''Failed to update todo status''), todos, db')
                  else
                    (case payload response of
                       TodoDoc updated \<Rightarrow>
                         (let index = findIndex (\<lambda>t. oid t = i) todos in
                          (Inr updated,
                           if index \<noteq> - 1 then todos[nat index := updated] else todos,
                           db'))
                     | _ \<Rightarrow> (Inl (Error ''Failed to update todo status''), todos, db')))))"

section \<open>Properties stated over the model\<close>

text \<open>The order of a listing: earlier due date first, later creation first among equal due dates.\<close>

definition listed_before :: "todo \<Rightarrow> todo \<Rightarrow> bool" where
  "listed_before a b =
     (dueDate a < dueDate b \<or> (dueDate a = dueDate b \<and> createdAt b \<le> createdAt a))"

text \<open>A record matches an input pair when it has the pair's task and due date.\<close>

definition matches :: "jsstring \<Rightarrow> int \<Rightarrow> todo \<Rightarrow> bool" where
  "matches tk ms t = (task t = tk \<and> dueDate t = ms)"

text \<open>The unique index on \<^verbatim>\<open>_id\<close>: no two stored documents share an identifier.\<close>

definition unique_ids :: "mongo \<Rightarrow> bool" where
  "unique_ids db = distinct (map oid (docs db))"

text \<open>\<^verbatim>\<open>new Date(v)\<close> neither throws nor gives Invalid Date.\<close>

definition valid_date :: "env \<Rightarrow> json \<Rightarrow> bool" where
  "valid_date e v = (case new_Date e v of Inr (Time ms) \<Rightarrow> True | _ \<Rightarrow> False)"

text \<open>
  An update body that passes every check before the lookup: \<open>task\<close> missing or a string
  that is not empty after trimming, \<open>dueDate\<close> missing or a valid date, \<open>status\<close> missing
  or one of the two values.
\<close>

definition accepted_update :: "env \<Rightarrow> body \<Rightarrow> bool" where
  "accepted_update e b =
     ((destructure b ''task'' = JUndefined \<or>
         (case destructure b ''task'' of JStr s \<Rightarrow> trim s \<noteq> [] | _ \<Rightarrow> False)) \<and>
      (destructure b ''dueDate'' = JUndefined \<or> valid_date e (destructure b ''dueDate'')) \<and>
      destructure b ''status'' \<in> {JUndefined, JStr pending, JStr completed})"

text \<open>
  The object \<^verbatim>\<open>updateData\<close> the PUT handler has built when it calls the store, and the
  response the PUT and DELETE handlers make of the store's answer.
\<close>

definition built_updateData :: "env \<Rightarrow> body \<Rightarrow> updateData" where
  "built_updateData e b =
     \<lparr>set_task = (case destructure b ''task'' of JStr s \<Rightarrow> Some (trim s) | _ \<Rightarrow> None),
      set_dueDate = (if destructure b ''dueDate'' \<noteq> JUndefined
                     then Some (dateValue e (destructure b ''dueDate'')) else None),
      set_status = (case destructure b ''status'' of JStr v \<Rightarrow> Some v | _ \<Rightarrow> None)\<rparr>"

definition store_response :: "string \<Rightarrow> mongo \<times> (js_error + todo option) \<Rightarrow> mongo \<times> response" where
  "store_response m r =
     (case r of
        (db', Inl error) \<Rightarrow> (db', \<lparr>statusCode = 500, payload = Failed m (Some error)\<rparr>)
      | (db', Inr None) \<Rightarrow> (db', \<lparr>statusCode = 404, payload = Message ''Todo not found''\<rparr>)
      | (db', Inr (Some t)) \<Rightarrow> (db', \<lparr>statusCode = 200, payload = TodoDoc t\<rparr>))"

text \<open>The array a response carries, empty when it carries none.\<close>

definition todos_of :: "response \<Rightarrow> todo list" where
  "todos_of r = (case payload r of TodoArray todos \<Rightarrow> todos | _ \<Rightarrow> [])"

text \<open>The status the client asks for when it toggles a task of status \<open>s\<close>.\<close>

definition flipped :: "jsstring \<Rightarrow> jsstring" where
  "flipped s = (if s = pending then completed else pending)"

section \<open>Example platform and states\<close>

text \<open>
  A platform for the examples: identifiers are the strings of 24 lower-case hexadecimal
  digits, the generator counts in the last digit, the \<^verbatim>\<open>Date\<close> constructor knows
  numbers and two date strings, and a path segment decodes to itself unless it has a
  percent sign.
\<close>

definition is_hex :: "char \<Rightarrow> bool" where
  "is_hex c = (c \<in> set ''0123456789abcdef'')"

definition env0 :: env where
  "env0 = \<lparr>ObjectId = (\<lambda>s. if length s = 24 \<and> list_all is_hex s then Some s else None),
           newObjectId = (\<lambda>n. ''00000000000000000000000'' @ [''0123456789abcdef'' ! (n mod 16)]),
           dateValue = (\<lambda>v. case v of
                        JNum n \<Rightarrow> Time n
                      | JStr s \<Rightarrow> (if s = (js ''2025-01-10'') then Time 1736467200000
                                   else if s = (js ''2025-02-01'') then Time 1738368000000
                                   else InvalidDate)
                      | _ \<Rightarrow> InvalidDate),
           decodeURIComponent = (\<lambda>s. if CHR ''%'' \<in> set s then None else Some s),
           NODE_ENV = Some ''production''\<rparr>"

definition id1 :: string where
  "id1 = ''000000000000000000000001''"

definition id2 :: string where
  "id2 = ''000000000000000000000002''"

definition milk :: todo where
  "milk = \<lparr>oid = ''000000000000000000000000'', task = (js ''Buy milk''), dueDate = 1736467200000,
           status = pending, createdAt = 100, updatedAt = 100\<rparr>"

definition rent :: todo where
  "rent = \<lparr>oid = id1, task = (js ''Pay rent''), dueDate = 1738368000000,
           status = completed, createdAt = 200, updatedAt = 250\<rparr>"

definition db0 :: mongo where
  "db0 = \<lparr>docs = [rent], issued = 2, now = 300, outage = None\<rparr>"

definition eggs :: todo where
  "eggs = \<lparr>oid = id2, task = (js ''Buy eggs''), dueDate = 1736467200000,
           status = pending, createdAt = 150, updatedAt = 150\<rparr>"

definition db1 :: mongo where
  "db1 = \<lparr>docs = [rent, milk, eggs], issued = 3, now = 300, outage = None\<rparr>"

definition db_down :: mongo where
  "db_down = \<lparr>docs = [rent], issued = 2, now = 300, outage = Some ''connection refused''\<rparr>"

text \<open>A body of a Create request, with white space around the task.\<close>

definition b_milk :: body where
  "b_milk = [''task'' \<mapsto> JStr (js ''  Buy milk ''), ''dueDate'' \<mapsto> JStr (js ''2025-01-10'')]"

text \<open>A body of a Create request whose task is white space only.\<close>

definition b_blank :: body where
  "b_blank = [''task'' \<mapsto> JStr (js ''   ''), ''dueDate'' \<mapsto> JStr (js ''2025-01-10'')]"

text \<open>A body of an Update request that edits the task and the due date.\<close>

definition b_edit :: body where
  "b_edit = [''task'' \<mapsto> JStr (js '' Pay rent now''), ''dueDate'' \<mapsto> JStr (js ''2025-01-10'')]"

section \<open>Helper lemmas\<close>

lemma unat_code_unit: "unat (code_unit c) = of_char c"
proof -
  have "(of_char c :: nat) < 256"
    by simp
  also have "(256 :: nat) < 2 ^ LENGTH(16)"
    by simp
  finally have lt: "(of_char c :: nat) < 2 ^ LENGTH(16)" .
  have "code_unit c = word_of_nat (of_char c)"
    by (simp only: code_unit_def of_nat_of_char)
  then show ?thesis
    using lt by (simp only: unat_of_nat mod_less)
qed

lemma code_unit_inj [simp]: "code_unit c = code_unit d \<longleftrightarrow> c = d"
proof
  assume "code_unit c = code_unit d"
  then have "unat (code_unit c) = unat (code_unit d)"
    by simp
  then have "(of_char c :: nat) = of_char d"
    by (simp only: unat_code_unit)
  then show "c = d"
    by simp
qed simp

lemma js_eq_iff [simp]: "js s = js t \<longleftrightarrow> s = t"
  unfolding js_def by (simp add: inj_map_eq_map inj_on_def)

lemma js_Nil_iff [simp]: "js s = [] \<longleftrightarrow> s = []"
  by (simp add: js_def)

lemma status_values [simp]:
  "pending \<noteq> completed" "completed \<noteq> pending" "pending \<noteq> []" "completed \<noteq> []"
  by (simp_all add: pending_def completed_def)

lemma js_eq_status [simp]:
  "js s = pending \<longleftrightarrow> s = ''pending''" "js s = completed \<longleftrightarrow> s = ''completed''"
  by (simp_all add: pending_def completed_def)

lemma trim_Nil [simp]: "trim [] = []"
  by (simp add: trim_def)

lemma new_Date_Inr: "new_Date e v = Inr d \<longleftrightarrow> \<not> toPrimitive_throws v \<and> dateValue e v = d"
  by (simp add: new_Date_def)

lemma new_Date_Inl: "new_Date e v = Inl err \<longleftrightarrow> toPrimitive_throws v \<and> err = TypeError"
  by (auto simp: new_Date_def)

lemma valid_date_iff:
  "valid_date e v \<longleftrightarrow> \<not> toPrimitive_throws v \<and> dateValue e v \<noteq> InvalidDate"
  by (cases "dateValue e v") (simp_all add: valid_date_def new_Date_def)

lemma find_split:
  "find P xs = Some x \<Longrightarrow> \<exists>pre post. xs = pre @ x # post \<and> P x \<and> (\<forall>y\<in>set pre. \<not> P y)"
proof (induction xs)
  case Nil
  then show ?case by simp
next
  case (Cons a xs)
  show ?case
  proof (cases "P a")
    case True
    with Cons.prems have "a = x" by simp
    with True have "a # xs = [] @ x # xs \<and> P x \<and> (\<forall>y\<in>set []. \<not> P y)" by simp
    then show ?thesis by blast
  next
    case False
    with Cons.prems have "find P xs = Some x" by simp
    from Cons.IH [OF this] obtain pre post
      where "xs = pre @ x # post" "P x" "\<forall>y\<in>set pre. \<not> P y" by blast
    with False have "a # xs = (a # pre) @ x # post \<and> P x \<and> (\<forall>y\<in>set (a # pre). \<not> P y)"
      by simp
    then show ?thesis by blast
  qed
qed

lemma update_first_split:
  "\<forall>y\<in>set pre. \<not> P y \<Longrightarrow> P x \<Longrightarrow> update_first P f (pre @ x # post) = pre @ f x # post"
  by (induction pre) auto

lemma remove_first_split:
  "\<forall>y\<in>set pre. \<not> P y \<Longrightarrow> P x \<Longrightarrow> remove_first P (pre @ x # post) = pre @ post"
  by (induction pre) auto

lemma find_append_miss:
  "\<forall>y\<in>set pre. \<not> P y \<Longrightarrow> find P (pre @ ys) = find P ys"
  by (induction pre) auto

lemma findIndex_split:
  "\<forall>y\<in>set pre. \<not> P y \<Longrightarrow> P x \<Longrightarrow> findIndex P (pre @ x # post) = int (length pre)"
  by (induction pre) (auto simp: Let_def)

lemma trim_idem: "trim (trim s) = trim s"
  unfolding trim_def
  by (metis (no_types, lifting) ext Nil_is_rev_conv dropWhile_eq_Nil_conv
    dropWhile_eq_self_iff dropWhile_last hd_dropWhile last_rev rev_swap)

lemma listed_before_sort_spec: "listed_before a b = (sort_spec a \<le> sort_spec b)"
  by (auto simp: listed_before_def sort_spec_def less_eq_prod_def)

lemma sorted_wrt_listing: "sorted_wrt listed_before (sort_key sort_spec xs)"
proof -
  have "sorted (map sort_spec (sort_key sort_spec xs))"
    by (rule sorted_sort_key)
  then show ?thesis
    by (simp add: sorted_wrt_map listed_before_sort_spec [abs_def])
qed

lemma find_None_oid: "k \<notin> oid ` set xs \<Longrightarrow> find (\<lambda>t. oid t = k) xs = None"
  by (force simp: find_None_iff)

lemma put_todo_store:
  assumes v: "isValid e i"
    and t: "destructure b ''task'' = JUndefined \<or> (\<exists>s. destructure b ''task'' = JStr s)"
    and d: "destructure b ''dueDate'' = JUndefined \<or> \<not> toPrimitive_throws (destructure b ''dueDate'')"
    and s: "destructure b ''status'' \<in> {JUndefined, JStr pending, JStr completed}"
  shows "put_todo e db i b =
           store_response ''Failed to update todo''
             (Todo_findByIdAndUpdate e db i (built_updateData e b))"
proof -
  have tr: "(if destructure b ''task'' \<noteq> JUndefined
            then map_sum (\<lambda>x. x) Some (js_trim (destructure b ''task'')) else Inr None)
           = Inr (case destructure b ''task'' of JStr s \<Rightarrow> Some (trim s) | _ \<Rightarrow> None)"
    using t by auto
  have dt: "(if destructure b ''dueDate'' \<noteq> JUndefined
            then map_sum (\<lambda>x. x) Some (new_Date e (destructure b ''dueDate'')) else Inr None)
           = Inr (if destructure b ''dueDate'' \<noteq> JUndefined
                  then Some (dateValue e (destructure b ''dueDate'')) else None)"
    using d by (auto simp: new_Date_def)
  from s consider "destructure b ''status'' = JUndefined"
    | "destructure b ''status'' = JStr pending"
    | "destructure b ''status'' = JStr completed" by blast
  then show ?thesis
    unfolding put_todo_def Let_def store_response_def built_updateData_def
    using v tr dt by cases simp_all
qed

lemma findByIdAndUpdate_accepted:
  assumes "ObjectId e i = Some k"
    and "set_dueDate u \<noteq> Some InvalidDate"
    and "set_task u = None \<or> (\<exists>v. set_task u = Some v \<and> trim v \<noteq> [])"
    and "set_status u \<in> {None, Some pending, Some completed}"
  shows "Todo_findByIdAndUpdate e db i u =
     (case outage db of
        Some m \<Rightarrow> (db, Inl (MongoError m))
      | None \<Rightarrow>
         (case find (\<lambda>t. oid t = k) (docs db) of
            None \<Rightarrow> (db, Inr None)
          | Some old \<Rightarrow>
             (db\<lparr>docs := update_first (\<lambda>t. oid t = k) (apply_update u (now db)) (docs db)\<rparr>,
              Inr (Some (apply_update u (now db) old)))))"
proof -
  have 1: "(case set_task u of None \<Rightarrow> []
            | Some v \<Rightarrow> if trim v = [] then [(''task'', ValidatorError ''Task is required'')] else []) = []"
    using assms(3) by auto
  have 2: "(case set_status u of None \<Rightarrow> []
            | Some v \<Rightarrow> if v \<in> {pending, completed} then [] else [(''status'', EnumFailure)]) = []"
    using assms(4) by auto
  show ?thesis
    unfolding Todo_findByIdAndUpdate_def Let_def 1 2
    using assms(1,2) by simp
qed


lemma accepted_update_built:
  assumes "accepted_update e b"
  shows "destructure b ''task'' = JUndefined \<or> (\<exists>s. destructure b ''task'' = JStr s)"
    and "destructure b ''status'' \<in> {JUndefined, JStr pending, JStr completed}"
    and "set_dueDate (built_updateData e b) \<noteq> Some InvalidDate"
    and "set_task (built_updateData e b) = None \<or>
         (\<exists>v. set_task (built_updateData e b) = Some v \<and> trim v \<noteq> [])"
    and "set_status (built_updateData e b) \<in> {None, Some pending, Some completed}"
    and "destructure b ''dueDate'' = JUndefined \<or> \<not> toPrimitive_throws (destructure b ''dueDate'')"
proof -
  from assms have t: "destructure b ''task'' = JUndefined \<or>
      (case destructure b ''task'' of JStr s \<Rightarrow> trim s \<noteq> [] | _ \<Rightarrow> False)"
    and d: "destructure b ''dueDate'' = JUndefined \<or> valid_date e (destructure b ''dueDate'')"
    and s: "destructure b ''status'' \<in> {JUndefined, JStr pending, JStr completed}"
    by (simp_all add: accepted_update_def)
  from t show "destructure b ''task'' = JUndefined \<or> (\<exists>s. destructure b ''task'' = JStr s)"
    by (cases "destructure b ''task''") simp_all
  from s show "destructure b ''status'' \<in> {JUndefined, JStr pending, JStr completed}" .
  from d show "set_dueDate (built_updateData e b) \<noteq> Some InvalidDate"
    by (auto simp: built_updateData_def valid_date_iff)
  from d show "destructure b ''dueDate'' = JUndefined \<or> \<not> toPrimitive_throws (destructure b ''dueDate'')"
    by (auto simp: valid_date_iff)
  from t show "set_task (built_updateData e b) = None \<or>
         (\<exists>v. set_task (built_updateData e b) = Some v \<and> trim v \<noteq> [])"
    by (cases "destructure b ''task''") (simp_all add: built_updateData_def trim_idem)
  from s consider "destructure b ''status'' = JUndefined"
    | "destructure b ''status'' = JStr pending"
    | "destructure b ''status'' = JStr completed" by blast
  then show "set_status (built_updateData e b) \<in> {None, Some pending, Some completed}"
    by cases (simp_all add: built_updateData_def)
qed

lemma put_todo_accepted:
  assumes a: "accepted_update e b" and k: "ObjectId e i = Some k"
  shows "put_todo e db i b =
     (case outage db of
        Some m \<Rightarrow> (db, \<lparr>statusCode = 500,
                        payload = Failed ''Failed to update todo'' (Some (MongoError m))\<rparr>)
      | None \<Rightarrow>
         (case find (\<lambda>t. oid t = k) (docs db) of
            None \<Rightarrow> (db, \<lparr>statusCode = 404, payload = Message ''Todo not found''\<rparr>)
          | Some old \<Rightarrow>
             (db\<lparr>docs := update_first (\<lambda>t. oid t = k)
                      (apply_update (built_updateData e b) (now db)) (docs db)\<rparr>,
              \<lparr>statusCode = 200,
               payload = TodoDoc (apply_update (built_updateData e b) (now db) old)\<rparr>)))"
proof -
  from k have v: "isValid e i"
    by (simp add: isValid_def)
  note b = accepted_update_built [OF a]
  show ?thesis
    unfolding put_todo_store [OF v b(1) b(6) b(2)] findByIdAndUpdate_accepted [OF k b(3) b(4) b(5)]
    by (simp add: store_response_def split: option.splits)
qed

lemma post_todos_missing_field:
  assumes "\<not> truthy (destructure b ''task'') \<or> \<not> truthy (destructure b ''dueDate'')"
  shows "\<exists>t d. post_todos e db b =
           (db, \<lparr>statusCode = 400, payload = Required ''Task and due date are required'' t d\<rparr>)
         \<and> (t = None) = truthy (destructure b ''task'')
         \<and> (d = None) = truthy (destructure b ''dueDate'')"
  using assms by (auto simp: post_todos_def Let_def)

lemma post_todos_docs:
  "statusCode (snd (post_todos e db b)) \<noteq> 201 \<Longrightarrow> docs (fst (post_todos e db b)) = docs db"
  by (auto simp: post_todos_def Todo_save_def Let_def new_Date_def
      split: sum.splits jsdate.splits option.splits if_splits)

lemma findByIdAndUpdate_Some:
  assumes "Todo_findByIdAndUpdate e db i u = (db', Inr (Some new))"
  shows "(\<exists>k. ObjectId e i = Some k) \<and> set_dueDate u \<noteq> Some InvalidDate \<and>
         (set_task u = None \<or> (\<exists>v. set_task u = Some v \<and> trim v \<noteq> [])) \<and>
         set_status u \<in> {None, Some pending, Some completed}"
proof -
  from assms obtain k where k: "ObjectId e i = Some k"
    by (cases "ObjectId e i") (simp_all add: Todo_findByIdAndUpdate_def)
  from assms k have d: "set_dueDate u \<noteq> Some InvalidDate"
    by (auto simp: Todo_findByIdAndUpdate_def)
  let ?et = "case set_task u of None \<Rightarrow> []
     | Some v \<Rightarrow> if trim v = [] then [(''task'', ValidatorError ''Task is required'')] else []"
  let ?es = "case set_status u of None \<Rightarrow> []
     | Some v \<Rightarrow> if v \<in> {pending, completed} then [] else [(''status'', EnumFailure)]"
  have "?et @ ?es = []"
  proof (rule ccontr)
    assume "?et @ ?es \<noteq> []"
    with k d have "Todo_findByIdAndUpdate e db i u = (db, Inl (ValidationError (?et @ ?es)))"
      unfolding Todo_findByIdAndUpdate_def Let_def by simp
    with assms show False by simp
  qed
  then have et: "?et = []" and es: "?es = []" by simp_all
  from et have t: "set_task u = None \<or> (\<exists>v. set_task u = Some v \<and> trim v \<noteq> [])"
    by (cases "set_task u") (simp_all split: if_splits)
  from es have s: "set_status u \<in> {None, Some pending, Some completed}"
    by (cases "set_status u") (simp_all split: if_splits)
  from k d t s show ?thesis by blast
qed

lemma put_todo_bad_task:
  assumes "isValid e i"
    and "\<not> (destructure b ''task'' = JUndefined \<or> (\<exists>s. destructure b ''task'' = JStr s))"
  shows "put_todo e db i b =
           (db, \<lparr>statusCode = 500, payload = Failed ''Failed to update todo'' (Some TypeError)\<rparr>)"
  using assms by (cases "destructure b ''task''") (simp_all add: put_todo_def Let_def)

lemma put_todo_bad_date:
  assumes "isValid e i"
    and "destructure b ''task'' = JUndefined \<or> (\<exists>s. destructure b ''task'' = JStr s)"
    and "\<not> (destructure b ''dueDate'' = JUndefined \<or>
            \<not> toPrimitive_throws (destructure b ''dueDate''))"
  shows "put_todo e db i b =
           (db, \<lparr>statusCode = 500, payload = Failed ''Failed to update todo'' (Some TypeError)\<rparr>)"
  using assms by (auto simp: put_todo_def Let_def new_Date_def)

lemma put_todo_bad_status:
  assumes "isValid e i"
    and "destructure b ''task'' = JUndefined \<or> (\<exists>s. destructure b ''task'' = JStr s)"
    and "destructure b ''dueDate'' = JUndefined \<or> \<not> toPrimitive_throws (destructure b ''dueDate'')"
    and "destructure b ''status'' \<notin> {JUndefined, JStr pending, JStr completed}"
  shows "put_todo e db i b = (db, \<lparr>statusCode = 400, payload = Message ''Invalid status value''\<rparr>)"
  using assms by (auto simp: put_todo_def Let_def new_Date_def)

lemma put_todo_ok_accepted:
  assumes p: "put_todo e db i b = (db', r)" and ok: "statusCode r = 200"
  shows "accepted_update e b \<and> (\<exists>k. ObjectId e i = Some k)"
proof -
  have v: "isValid e i"
  proof (rule ccontr)
    assume "\<not> isValid e i"
    then have "put_todo e db i b =
        (db, \<lparr>statusCode = 400, payload = Message ''Invalid todo ID format''\<rparr>)"
      by (simp add: put_todo_def Let_def)
    with p ok show False by auto
  qed
  have t: "destructure b ''task'' = JUndefined \<or> (\<exists>s. destructure b ''task'' = JStr s)"
  proof (rule ccontr)
    assume n: "\<not> ?thesis"
    from put_todo_bad_task [OF v n, of db] p ok show False by auto
  qed
  have dn: "destructure b ''dueDate'' = JUndefined \<or> \<not> toPrimitive_throws (destructure b ''dueDate'')"
  proof (rule ccontr)
    assume n: "\<not> ?thesis"
    from put_todo_bad_date [OF v t n, of db] p ok show False by auto
  qed
  have s: "destructure b ''status'' \<in> {JUndefined, JStr pending, JStr completed}"
  proof (rule ccontr)
    assume n: "\<not> ?thesis"
    from put_todo_bad_status [OF v t dn n, of db] p ok show False by auto
  qed
  from p have st: "store_response ''Failed to update todo''
      (Todo_findByIdAndUpdate e db i (built_updateData e b)) = (db', r)"
    by (simp add: put_todo_store [OF v t dn s])
  obtain db2 res where res: "Todo_findByIdAndUpdate e db i (built_updateData e b) = (db2, res)"
    by (cases "Todo_findByIdAndUpdate e db i (built_updateData e b)")
  from st ok res obtain new where "res = Inr (Some new)"
    by (cases res; cases "projr res") (auto simp: store_response_def split: sum.splits option.splits)
  with res have "Todo_findByIdAndUpdate e db i (built_updateData e b) = (db2, Inr (Some new))"
    by simp
  from findByIdAndUpdate_Some [OF this]
  have k: "\<exists>k. ObjectId e i = Some k"
    and d: "set_dueDate (built_updateData e b) \<noteq> Some InvalidDate"
    and tt: "set_task (built_updateData e b) = None \<or>
         (\<exists>v. set_task (built_updateData e b) = Some v \<and> trim v \<noteq> [])"
    by simp_all
  from t tt have ta: "destructure b ''task'' = JUndefined \<or>
         (case destructure b ''task'' of JStr s \<Rightarrow> trim s \<noteq> [] | _ \<Rightarrow> False)"
    by (auto simp: built_updateData_def trim_idem)
  from d dn have da: "destructure b ''dueDate'' = JUndefined \<or>
      valid_date e (destructure b ''dueDate'')"
    by (auto simp: built_updateData_def valid_date_iff)
  from ta da s k show ?thesis
    by (simp add: accepted_update_def)
qed

text \<open>A successful response of the PUT handler carries a document.\<close>

lemma store_response_ok_doc:
  "ok (snd (store_response m r)) \<Longrightarrow> \<exists>t. payload (snd (store_response m r)) = TodoDoc t"
  by (cases r; cases "snd r"; cases "projr (snd r)")
     (auto simp: store_response_def ok_def)

lemma put_todo_ok_doc:
  assumes "ok (snd (put_todo e db i b))"
  shows "\<exists>t. payload (snd (put_todo e db i b)) = TodoDoc t"
proof (cases "isValid e i")
  case False
  with assms show ?thesis by (simp add: put_todo_def Let_def ok_def)
next
  case v: True
  show ?thesis
  proof (cases "destructure b ''task'' = JUndefined \<or> (\<exists>s. destructure b ''task'' = JStr s)")
    case False
    from put_todo_bad_task [OF v this, of db] assms show ?thesis by (simp add: ok_def)
  next
    case t: True
    show ?thesis
    proof (cases "destructure b ''dueDate'' = JUndefined \<or> \<not> toPrimitive_throws (destructure b ''dueDate'')")
      case False
      from put_todo_bad_date [OF v t this, of db] assms show ?thesis by (simp add: ok_def)
    next
      case d: True
      show ?thesis
      proof (cases "destructure b ''status'' \<in> {JUndefined, JStr pending, JStr completed}")
        case False
        from put_todo_bad_status [OF v t d this, of db] assms show ?thesis by (simp add: ok_def)
      next
        case True
        from put_todo_store [OF v t d this, of db] assms show ?thesis
          by (simp add: store_response_ok_doc)
      qed
    qed
  qed
qed

lemma accepted_status_only:
  "s \<in> {pending, completed} \<Longrightarrow> accepted_update e [''status'' \<mapsto> JStr s]"
  by (auto simp: accepted_update_def destructure_def)

lemma built_status_only:
  "built_updateData e [''status'' \<mapsto> JStr s] = \<lparr>set_task = None, set_dueDate = None, set_status = Some s\<rparr>"
  by (simp add: built_updateData_def destructure_def)

lemma toggle_step:
  assumes c: "ObjectId e i = Some i"
    and t: "todos = pre @ t # post" "\<forall>y\<in>set pre. oid y \<noteq> i" "oid t = i"
    and d: "docs db = dpre @ d # dpost" "\<forall>y\<in>set dpre. oid y \<noteq> i" "oid d = i"
    and o: "outage db = None"
    and u: "u = d\<lparr>status := flipped (status t), updatedAt := now db\<rparr>"
  shows "toggleTodoStatus e i (todos, db) =
           (Inr u, pre @ u # post, db\<lparr>docs := dpre @ u # dpost\<rparr>)"
proof -
  have ft: "find (\<lambda>t. oid t = i) todos = Some t"
    using t by (simp add: find_append_miss)
  have fd: "find (\<lambda>t. oid t = i) (docs db) = Some d"
    using d by (simp add: find_append_miss)
  have ix: "findIndex (\<lambda>t. oid t = i) todos = int (length pre)"
    using t by (simp add: findIndex_split)
  have a: "accepted_update e [''status'' \<mapsto> JStr (flipped (status t))]"
    by (rule accepted_status_only) (simp add: flipped_def)
  have ap: "apply_update \<lparr>set_task = None, set_dueDate = None, set_status = Some (flipped (status t))\<rparr>
      (now db) d = u"
    by (simp add: apply_update_def u)
  have p: "put_todo e db i [''status'' \<mapsto> JStr (flipped (status t))] =
      (db\<lparr>docs := dpre @ u # dpost\<rparr>, \<lparr>statusCode = 200, payload = TodoDoc u\<rparr>)"
    using o fd d ap by (simp add: put_todo_accepted [OF a c] built_status_only update_first_split)
  show ?thesis
    unfolding toggleTodoStatus_def
    using ft p ix t(1) by (simp add: flipped_def [symmetric] ok_def)
qed

lemma flipped_twice: "s \<in> {pending, completed} \<Longrightarrow> flipped (flipped s) = s"
  by (auto simp: flipped_def)

section \<open>The unique index is kept by every handler\<close>

lemma unique_ids_post: "unique_ids db \<Longrightarrow> unique_ids (fst (post_todos e db b))"
  by (auto simp: unique_ids_def post_todos_def Todo_save_def Let_def new_Date_def
      split: sum.splits jsdate.splits option.splits)

lemma oid_update_first:
  "(\<And>x. oid (f x) = oid x) \<Longrightarrow> map oid (update_first P f xs) = map oid xs"
  by (induction xs) auto

lemma fst_store_response: "fst (store_response m r) = fst r"
  by (simp add: store_response_def split: prod.splits sum.splits option.splits)

lemma findByIdAndUpdate_docs:
  "fst (Todo_findByIdAndUpdate e db i u) = db \<or>
   (\<exists>k. fst (Todo_findByIdAndUpdate e db i u) =
      db\<lparr>docs := update_first (\<lambda>t. oid t = k) (apply_update u (now db)) (docs db)\<rparr>)"
proof (cases "ObjectId e i")
  case None
  then show ?thesis by (simp add: Todo_findByIdAndUpdate_def)
next
  case (Some k)
  let ?errs = "(case set_task u of None \<Rightarrow> []
     | Some v \<Rightarrow> if trim v = [] then [(''task'', ValidatorError ''Task is required'')] else [])
     @ (case set_status u of None \<Rightarrow> []
     | Some v \<Rightarrow> if v \<in> {pending, completed} then [] else [(''status'', EnumFailure)])"
  show ?thesis
  proof (cases "set_dueDate u = Some InvalidDate \<or> ?errs \<noteq> [] \<or> outage db \<noteq> None
      \<or> find (\<lambda>t. oid t = k) (docs db) = None")
    case True
    with Some have "fst (Todo_findByIdAndUpdate e db i u) = db"
      unfolding Todo_findByIdAndUpdate_def Let_def
      by (cases "outage db"; cases "find (\<lambda>t. oid t = k) (docs db)") auto
    then show ?thesis ..
  next
    case False
    with Some have "fst (Todo_findByIdAndUpdate e db i u) =
        db\<lparr>docs := update_first (\<lambda>t. oid t = k) (apply_update u (now db)) (docs db)\<rparr>"
      unfolding Todo_findByIdAndUpdate_def Let_def
      by (cases "outage db"; cases "find (\<lambda>t. oid t = k) (docs db)") auto
    then show ?thesis by blast
  qed
qed

lemma findByIdAndUpdate_oids:
  "map oid (docs (fst (Todo_findByIdAndUpdate e db i u))) = map oid (docs db)"
  using findByIdAndUpdate_docs [of e db i u]
  by (auto simp: oid_update_first apply_update_def)

lemma put_todo_oids: "map oid (docs (fst (put_todo e db i b))) = map oid (docs db)"
proof (cases "isValid e i")
  case False
  then show ?thesis by (simp add: put_todo_def Let_def)
next
  case v: True
  show ?thesis
  proof (cases "destructure b ''task'' = JUndefined \<or> (\<exists>s. destructure b ''task'' = JStr s)")
    case False
    from put_todo_bad_task [OF v this] show ?thesis by simp
  next
    case t: True
    show ?thesis
    proof (cases "destructure b ''dueDate'' = JUndefined \<or> \<not> toPrimitive_throws (destructure b ''dueDate'')")
      case False
      from put_todo_bad_date [OF v t this] show ?thesis by simp
    next
      case d: True
      show ?thesis
      proof (cases "destructure b ''status'' \<in> {JUndefined, JStr pending, JStr completed}")
        case False
        from put_todo_bad_status [OF v t d this] show ?thesis by simp
      next
        case True
        from put_todo_store [OF v t d this] show ?thesis
          by (simp add: fst_store_response findByIdAndUpdate_oids)
      qed
    qed
  qed
qed

lemma unique_ids_put: "unique_ids db \<Longrightarrow> unique_ids (fst (put_todo e db i b))"
  by (simp add: unique_ids_def put_todo_oids)

lemma set_remove_first: "set (remove_first P xs) \<subseteq> set xs"
  by (induction xs) auto

lemma distinct_remove_first:
  "distinct (map oid xs) \<Longrightarrow> distinct (map oid (remove_first P xs))"
proof (induction xs)
  case Nil
  then show ?case by simp
next
  case (Cons a xs)
  from set_remove_first [of P xs] have "oid ` set (remove_first P xs) \<subseteq> oid ` set xs"
    by blast
  with Cons show ?case by auto
qed

lemma findByIdAndDelete_unique:
  "unique_ids db \<Longrightarrow> unique_ids (fst (Todo_findByIdAndDelete e db i))"
  by (simp add: Todo_findByIdAndDelete_def unique_ids_def distinct_remove_first
      split: option.splits)

lemma unique_ids_delete: "unique_ids db \<Longrightarrow> unique_ids (fst (delete_todo e db i))"
proof -
  assume u: "unique_ids db"
  have "fst (delete_todo e db i) = db \<or>
        fst (delete_todo e db i) = fst (Todo_findByIdAndDelete e db i)"
    by (auto simp: delete_todo_def split: sum.splits prod.splits option.splits)
  with u findByIdAndDelete_unique [OF u, of e i] show ?thesis
    by auto
qed

text \<open>A call of \<open>toggleTodoStatus\<close> that throws leaves the cache as it was.\<close>

lemma toggle_error_keeps_cache:
  "toggleTodoStatus e i (todos, db) = (Inl err, todos', db') \<Longrightarrow> todos' = todos"
  by (auto simp: toggleTodoStatus_def Let_def split: option.splits prod.splits if_splits payload.splits)

section \<open>List\<close>

text \<open>
  C3: while the store can be reached, List answers 200 with all the tasks of the
  collection (the same records with the same multiplicities), ordered by ascending
  \<open>dueDate\<close>, and among equal due dates by descending \<open>createdAt\<close>, so that the task
  created later comes first. The collection is left as it was.
\<close>

theorem get_todos_sorted:
  assumes "outage db = None"
  shows "\<exists>todos. get_todos db = (db, \<lparr>statusCode = 200, payload = TodoArray todos\<rparr>)
           \<and> mset todos = mset (docs db) \<and> sorted_wrt listed_before todos"
  using assms by (simp add: get_todos_def Todo_find_sort_def sorted_wrt_listing)

theorem get_todos_sorted_witness:
  "outage db1 = None \<and>
   get_todos db1 = (db1, \<lparr>statusCode = 200, payload = TodoArray [eggs, milk, rent]\<rparr>) \<and>
   sorted_wrt listed_before [eggs, milk, rent]"
  using get_todos_sorted [of db1]
  by (simp add: db1_def get_todos_def Todo_find_sort_def sort_spec_def
      milk_def rent_def eggs_def listed_before_def)

section \<open>Create\<close>

text \<open>
  C1 (as stated): after Create and List, exactly one listed record has the task and due
  date of the input. This fails when the collection already holds a task with the same
  text and due date: Create answers 201 and the listing then has two such records.
\<close>

theorem create_duplicate_counterexample:
  "statusCode (snd (post_todos env0 db1 b_milk)) = 201 \<and>
   length (filter (matches (js ''Buy milk'') 1736467200000)
     (todos_of (snd (get_todos (fst (post_todos env0 db1 b_milk)))))) = 2"
proof -
  have t: "trim (js ''  Buy milk '') = (js ''Buy milk'')" "trim (js ''Buy milk'') = (js ''Buy milk'')"
    by (simp_all add: trim_def is_space_def js_def code_unit_def)
  have p: "post_todos env0 db1 b_milk =
     (db1\<lparr>issued := 4, docs := docs db1 @ [\<lparr>oid = ''000000000000000000000003'', task = (js ''Buy milk''),
         dueDate = 1736467200000, status = pending, createdAt = 300, updatedAt = 300\<rparr>]\<rparr>,
      \<lparr>statusCode = 201, payload = TodoDoc \<lparr>oid = ''000000000000000000000003'', task = (js ''Buy milk''),
         dueDate = 1736467200000, status = pending, createdAt = 300, updatedAt = 300\<rparr>\<rparr>)"
    by (simp add: post_todos_def b_milk_def destructure_def Todo_save_def new_Date_def t env0_def
        db1_def rent_def milk_def eggs_def id1_def id2_def Let_def)
  show ?thesis
    unfolding p
    by (simp add: get_todos_def Todo_find_sort_def todos_of_def filter_sort matches_def
        db1_def rent_def milk_def eggs_def sort_spec_def)
qed

text \<open>
  C1 (amended): for a body whose task is a string that is not empty after trimming and
  whose due date is truthy and makes a valid date (\<^verbatim>\<open>new Date\<close> neither throws nor gives
  Invalid Date), while the store can be reached and the
  generated identifier is not yet stored, Create answers 201 with a record that has the
  generated identifier, the trimmed task, the due date, status pending and both
  timestamps set to the store's time. The List that follows answers 200 with exactly
  one record of that identifier, which is the created record, and with one more record
  of that task and due date than the collection held before.
\<close>

theorem create_then_list:
  assumes "destructure b ''task'' = JStr tk" and "trim tk \<noteq> []"
      and "truthy (destructure b ''dueDate'')"
      and "new_Date e (destructure b ''dueDate'') = Inr (Time ms)"
      and "outage db = None"
      and "newObjectId e (issued db) \<notin> oid ` set (docs db)"
  shows "\<exists>db' doc todos.
      post_todos e db b = (db', \<lparr>statusCode = 201, payload = TodoDoc doc\<rparr>) \<and>
      doc = \<lparr>oid = newObjectId e (issued db), task = trim tk, dueDate = ms,
             status = pending, createdAt = now db, updatedAt = now db\<rparr> \<and>
      get_todos db' = (db', \<lparr>statusCode = 200, payload = TodoArray todos\<rparr>) \<and>
      filter (\<lambda>t. oid t = oid doc) todos = [doc] \<and>
      length (filter (matches (trim tk) ms) todos) =
        Suc (length (filter (matches (trim tk) ms) (docs db)))"
proof -
  let ?doc = "\<lparr>oid = newObjectId e (issued db), task = trim tk, dueDate = ms,
             status = pending, createdAt = now db, updatedAt = now db\<rparr>"
  let ?db' = "db\<lparr>issued := Suc (issued db), docs := docs db @ [?doc]\<rparr>"
  from assms(2) have "tk \<noteq> []" by auto
  with assms have post: "post_todos e db b = (?db', \<lparr>statusCode = 201, payload = TodoDoc ?doc\<rparr>)"
    by (simp add: post_todos_def Todo_save_def trim_idem Let_def)
  have get: "get_todos ?db' = (?db', \<lparr>statusCode = 200, payload = TodoArray (sort_key sort_spec (docs db @ [?doc]))\<rparr>)"
    using assms(5) by (simp add: get_todos_def Todo_find_sort_def)
  have "filter (\<lambda>t. oid t = oid ?doc) (docs db) = []"
    using assms(6) by (force simp: filter_empty_conv)
  then have one: "filter (\<lambda>t. oid t = oid ?doc) (sort_key sort_spec (docs db @ [?doc])) = [?doc]"
    by (simp add: filter_sort)
  have cnt: "length (filter (matches (trim tk) ms) (sort_key sort_spec (docs db @ [?doc]))) =
        Suc (length (filter (matches (trim tk) ms) (docs db)))"
    by (simp add: filter_sort matches_def)
  from post get one cnt show ?thesis by blast
qed

theorem create_then_list_witness:
  "destructure b_milk ''task'' = JStr (js ''  Buy milk '') \<and> trim (js ''  Buy milk '') = (js ''Buy milk'') \<and>
   truthy (destructure b_milk ''dueDate'') \<and>
   new_Date env0 (destructure b_milk ''dueDate'') = Inr (Time 1736467200000) \<and>
   outage db0 = None \<and> newObjectId env0 (issued db0) \<notin> oid ` set (docs db0) \<and>
   (\<exists>db' doc todos.
      post_todos env0 db0 b_milk = (db', \<lparr>statusCode = 201, payload = TodoDoc doc\<rparr>) \<and>
      doc = \<lparr>oid = id2, task = (js ''Buy milk''), dueDate = 1736467200000,
             status = pending, createdAt = 300, updatedAt = 300\<rparr> \<and>
      get_todos db' = (db', \<lparr>statusCode = 200, payload = TodoArray todos\<rparr>) \<and>
      filter (\<lambda>t. oid t = oid doc) todos = [doc] \<and>
      length (filter (matches (js ''Buy milk'') 1736467200000) todos) = 1)"
proof -
  have t: "trim (js ''  Buy milk '') = (js ''Buy milk'')"
    by (simp add: trim_def is_space_def js_def code_unit_def)
  have h1: "destructure b_milk ''task'' = JStr (js ''  Buy milk '')"
    by (simp add: b_milk_def destructure_def)
  have h2: "trim (js ''  Buy milk '') \<noteq> []"
    by (simp add: t)
  have h3: "truthy (destructure b_milk ''dueDate'')"
    by (simp add: b_milk_def destructure_def)
  have h4: "new_Date env0 (destructure b_milk ''dueDate'') = Inr (Time 1736467200000)"
    by (simp add: b_milk_def destructure_def env0_def new_Date_def)
  have h5: "outage db0 = None"
    by (simp add: db0_def)
  have h6: "newObjectId env0 (issued db0) \<notin> oid ` set (docs db0)"
    by (simp add: db0_def env0_def rent_def id1_def)
  have n: "newObjectId env0 (issued db0) = id2"
    by (simp add: db0_def env0_def id2_def)
  have m: "filter (matches (js ''Buy milk'') 1736467200000) (docs db0) = []"
    by (simp add: db0_def rent_def matches_def)
  have c: "now db0 = 300"
    by (simp add: db0_def)
  show ?thesis
    using create_then_list [OF h1 h2 h3 h4 h5 h6] h1 h3 h4 h5 h6
    by (simp add: t n m c)
qed

text \<open>
  C2: a Create request whose task is empty after trimming fails with a validation error,
  status 400, and adds no record. At a task that is white space only the handler does
  not do so: the test \<^verbatim>\<open>!task\<close> runs before \<^verbatim>\<open>task.trim()\<close>, the request passes it and
  the \<^verbatim>\<open>catch\<close> block answers 500 with \<open>Failed to create todo\<close>: with the validation
  error of the schema's \<open>required\<close> validator, which rejects the trimmed task inside
  \<^verbatim>\<open>save\<close>, unless \<^verbatim>\<open>new Date(dueDate)\<close> has thrown before. No record is added.
\<close>

theorem post_todos_blank_task:
  assumes "destructure b ''task'' = JStr tk" and "tk \<noteq> []" and "trim tk = []"
      and "truthy (destructure b ''dueDate'')"
  shows "\<exists>db' err. post_todos e db b =
           (db', \<lparr>statusCode = 500, payload = Failed ''Failed to create todo'' (Some err)\<rparr>)
         \<and> docs db' = docs db
         \<and> (\<not> toPrimitive_throws (destructure b ''dueDate'') \<longrightarrow>
              (\<exists>errs. err = ValidationError errs \<and>
                 (''task'', ValidatorError ''Task is required'') \<in> set errs))"
proof (cases "toPrimitive_throws (destructure b ''dueDate'')")
  case True
  with assms show ?thesis
    by (simp add: post_todos_def new_Date_def Let_def)
next
  case False
  with assms show ?thesis
    by (cases "dateValue e (destructure b ''dueDate'')")
       (simp_all add: post_todos_def new_Date_def Todo_save_def Let_def)
qed

theorem post_todos_blank_task_witness:
  "destructure b_blank ''task'' = JStr (js ''   '') \<and> trim (js ''   '') = [] \<and>
   truthy (destructure b_blank ''dueDate'') \<and>
   \<not> toPrimitive_throws (destructure b_blank ''dueDate'') \<and>
   post_todos env0 db0 b_blank =
     (db0\<lparr>issued := 3\<rparr>,
      \<lparr>statusCode = 500,
       payload = Failed ''Failed to create todo''
         (Some (ValidationError [(''task'', ValidatorError ''Task is required'')]))\<rparr>)"
proof -
  have t: "trim (js ''   '') = []"
    by (simp add: trim_def is_space_def js_def code_unit_def)
  have h1: "destructure b_blank ''task'' = JStr (js ''   '')"
    by (simp add: b_blank_def destructure_def)
  have h3: "truthy (destructure b_blank ''dueDate'')"
    by (simp add: b_blank_def destructure_def)
  have h4: "\<not> toPrimitive_throws (destructure b_blank ''dueDate'')"
    by (simp add: b_blank_def destructure_def)
  have d: "dateValue env0 (destructure b_blank ''dueDate'') = Time 1736467200000"
    by (simp add: b_blank_def destructure_def env0_def)
  have p: "post_todos env0 db0 b_blank =
     (db0\<lparr>issued := 3\<rparr>,
      \<lparr>statusCode = 500,
       payload = Failed ''Failed to create todo''
         (Some (ValidationError [(''task'', ValidatorError ''Task is required'')]))\<rparr>)"
    by (simp add: post_todos_def new_Date_def Todo_save_def Let_def h1 h3 h4 d t db0_def)
  from post_todos_blank_task [OF h1 _ t h3, of env0 db0] h1 t h3 h4 p show ?thesis
    by simp
qed

text \<open>
  The same at a task that is one no-break space (U+00A0), and at one whose due date
  cannot be converted to a primitive.
\<close>

lemma post_todos_nbsp_task:
  "post_todos env0 db0 [''task'' \<mapsto> JStr [0x00A0], ''dueDate'' \<mapsto> JStr (js ''2025-01-10'')] =
     (db0\<lparr>issued := 3\<rparr>,
      \<lparr>statusCode = 500,
       payload = Failed ''Failed to create todo''
         (Some (ValidationError [(''task'', ValidatorError ''Task is required'')]))\<rparr>)"
  by (simp add: post_todos_def new_Date_def Todo_save_def Let_def destructure_def trim_def
      is_space_def env0_def db0_def)

lemma post_todos_date_throws:
  "post_todos env0 db0
     [''task'' \<mapsto> JStr (js ''Buy milk''), ''dueDate'' \<mapsto> JObj [(''toString'', JNum 1)]] =
     (db0, \<lparr>statusCode = 500, payload = Failed ''Failed to create todo'' (Some TypeError)\<rparr>)"
  by (simp add: post_todos_def new_Date_def Let_def destructure_def)

section \<open>Update\<close>

text \<open>What the two routes answer in terms of the handlers.\<close>

lemma put_route_decoded:
  "decodeURIComponent e segment = Some i \<Longrightarrow> put_route e db segment b = put_todo e db i b"
  by (simp add: put_route_def)

lemma delete_route_decoded:
  "decodeURIComponent e segment = Some i \<Longrightarrow> delete_route e db segment = delete_todo e db i"
  by (simp add: delete_route_def)

lemma route_undecoded:
  assumes "decodeURIComponent e segment = None"
  shows "put_route e db segment b =
           (db, \<lparr>statusCode = 500,
                 payload = Failed ''Internal server error''
                   (if NODE_ENV e = Some ''development'' then Some URIError else None)\<rparr>)"
    and "delete_route e db segment =
           (db, \<lparr>statusCode = 500,
                 payload = Failed ''Internal server error''
                   (if NODE_ENV e = Some ''development'' then Some URIError else None)\<rparr>)"
  using assms by (simp_all add: put_route_def delete_route_def error_middleware_def)

lemma put_todo_invalid_id:
  "\<not> isValid e i \<Longrightarrow>
     put_todo e db i b = (db, \<lparr>statusCode = 400, payload = Message ''Invalid todo ID format''\<rparr>)"
  by (simp add: put_todo_def Let_def)

text \<open>
  C4 (as stated): every Update request with a status outside the two values answers
  400. This fails when the body also holds a task that is not a string: \<^verbatim>\<open>task.trim()\<close>
  throws before the status is looked at, and the \<^verbatim>\<open>catch\<close> block answers 500.
\<close>

theorem put_todo_invalid_status_counterexample:
  "statusCode (snd (put_todo env0 db0 id1 [''task'' \<mapsto> JNum 5, ''status'' \<mapsto> JStr (js ''archived'')])) = 500"
  by (simp add: put_todo_def destructure_def isValid_def env0_def id1_def is_hex_def Let_def)

text \<open>
  C4 (amended): an Update request whose status is supplied and is not one of the two
  values leaves the server's state exactly as it was, whatever the rest of the request.
  Its response is 400 exactly when the id segment can be decoded and either the id is
  not valid, or the task is missing or a string and the due date is missing or can be
  converted to a primitive (so that \<^verbatim>\<open>new Date(dueDate)\<close> does not throw). In every other
  case the response is 500: from the error handling middleware when the id segment
  cannot be decoded, from the \<^verbatim>\<open>catch\<close> block when \<^verbatim>\<open>task.trim()\<close> or \<^verbatim>\<open>new Date(dueDate)\<close>
  throws, both of which run before the status is checked.
\<close>

theorem put_todo_invalid_status:
  assumes "destructure b ''status'' \<notin> {JUndefined, JStr pending, JStr completed}"
  shows "fst (put_route e db segment b) = db \<and>
         statusCode (snd (put_route e db segment b)) =
           (if (case decodeURIComponent e segment of
                  None \<Rightarrow> False
                | Some i \<Rightarrow> \<not> isValid e i \<or> ((destructure b ''task'' = JUndefined \<or> (\<exists>s. destructure b ''task'' = JStr s)) \<and>
                    (destructure b ''dueDate'' = JUndefined \<or> \<not> toPrimitive_throws (destructure b ''dueDate''))))
            then 400 else 500)"
proof (cases "decodeURIComponent e segment")
  case None
  then show ?thesis
    by (simp add: route_undecoded)
next
  case (Some i)
  note r = put_route_decoded [OF Some]
  show ?thesis
  proof (cases "isValid e i")
    case False
    with Some show ?thesis
      by (simp add: r put_todo_invalid_id)
  next
    case v: True
    show ?thesis
    proof (cases "destructure b ''task'' = JUndefined \<or> (\<exists>s. destructure b ''task'' = JStr s)")
      case False
      from put_todo_bad_task [OF v False, of db] Some v False show ?thesis
        by (simp add: r)
    next
      case t: True
      show ?thesis
      proof (cases "destructure b ''dueDate'' = JUndefined \<or> \<not> toPrimitive_throws (destructure b ''dueDate'')")
        case False
        from put_todo_bad_date [OF v t False, of db] Some v False show ?thesis
          by (simp add: r)
      next
        case d: True
        from put_todo_bad_status [OF v t d assms, of db] Some v t d show ?thesis
          by (simp add: r)
      qed
    qed
  qed
qed

theorem put_todo_invalid_status_witness:
  "destructure [''status'' \<mapsto> JStr (js ''archived'')] ''status''
     \<notin> {JUndefined, JStr pending, JStr completed} \<and>
   decodeURIComponent env0 id1 = Some id1 \<and> isValid env0 id1 \<and>
   put_route env0 db0 id1 [''status'' \<mapsto> JStr (js ''archived'')] =
     (db0, \<lparr>statusCode = 400, payload = Message ''Invalid status value''\<rparr>) \<and>
   statusCode (snd (put_route env0 db0 id1
     [''dueDate'' \<mapsto> JObj [(''toString'', JNum 1)], ''status'' \<mapsto> JStr (js ''archived'')])) = 500 \<and>
   decodeURIComponent env0 ''%zz'' = None \<and>
   statusCode (snd (put_route env0 db0 ''%zz'' [''status'' \<mapsto> JStr (js ''archived'')])) = 500"
proof -
  let ?b = "[''status'' \<mapsto> JStr (js ''archived'')]"
  let ?c = "[''dueDate'' \<mapsto> JObj [(''toString'', JNum 1)], ''status'' \<mapsto> JStr (js ''archived'')]"
  have h: "destructure ?b ''status'' \<notin> {JUndefined, JStr pending, JStr completed}"
    by (simp add: destructure_def)
  have h': "destructure ?c ''status'' \<notin> {JUndefined, JStr pending, JStr completed}"
    by (simp add: destructure_def)
  have d: "decodeURIComponent env0 id1 = Some id1" "decodeURIComponent env0 ''%zz'' = None"
    by (simp_all add: env0_def id1_def)
  have v: "isValid env0 id1"
    by (simp add: isValid_def env0_def id1_def is_hex_def)
  have p: "put_route env0 db0 id1 ?b =
     (db0, \<lparr>statusCode = 400, payload = Message ''Invalid status value''\<rparr>)"
    using d v by (simp add: put_route_def put_todo_def destructure_def Let_def)
  have c: "destructure ?c ''task'' = JUndefined"
    "toPrimitive_throws (destructure ?c ''dueDate'')" "destructure ?c ''dueDate'' \<noteq> JUndefined"
    by (simp_all add: destructure_def)
  from put_todo_invalid_status [OF h, of env0 db0 id1]
       put_todo_invalid_status [OF h', of env0 db0 id1]
       put_todo_invalid_status [OF h, of env0 db0 "''%zz''"] h d v p c
  show ?thesis
    by simp
qed

text \<open>
  C10 (as stated): every Update request with a valid id that is not stored and a status
  outside the two values answers 400. This fails when the task is \<^verbatim>\<open>null\<close>: the handler
  answers 500, since it trims the task between the check of the id and the check of the
  status.
\<close>

theorem put_todo_status_before_lookup_counterexample:
  "isValid env0 id2 \<and> id2 \<notin> oid ` set (docs db0) \<and>
   put_todo env0 db0 id2 [''task'' \<mapsto> JNull, ''status'' \<mapsto> JStr (js ''archived'')] =
     (db0, \<lparr>statusCode = 500, payload = Failed ''Failed to update todo'' (Some TypeError)\<rparr>)"
  by (simp add: put_todo_def destructure_def isValid_def env0_def id1_def id2_def is_hex_def Let_def
      db0_def rent_def)

text \<open>
  C10 (amended): the Update handler works in a fixed order: it checks the id format,
  then trims the task (which throws when the task is not a string), then builds the date
  (which throws when the due date cannot be converted to a primitive), then checks the
  status, and only then asks the store. So for an id segment that decodes to a valid id,
  a task that is missing or a string, a due date that is missing or can be converted,
  and a status that is supplied and not one of the two values, the response is 400 with
  \<open>Invalid status value\<close>, not 404, and the state is unchanged, for every state of the
  store: whether or not the id is stored and whether or not the store can be reached,
  so the store is not consulted.
\<close>

theorem put_todo_status_before_lookup:
  assumes "decodeURIComponent e segment = Some i" and "isValid e i"
      and "destructure b ''task'' = JUndefined \<or> (\<exists>s. destructure b ''task'' = JStr s)"
      and "destructure b ''dueDate'' = JUndefined \<or> \<not> toPrimitive_throws (destructure b ''dueDate'')"
      and "destructure b ''status'' \<notin> {JUndefined, JStr pending, JStr completed}"
  shows "put_route e db segment b =
           (db, \<lparr>statusCode = 400, payload = Message ''Invalid status value''\<rparr>)"
  using assms by (auto simp: put_route_def put_todo_def Let_def new_Date_def)

theorem put_todo_status_before_lookup_witness:
  "decodeURIComponent env0 id2 = Some id2 \<and> isValid env0 id2 \<and>
   id2 \<notin> oid ` set (docs db_down) \<and> outage db_down \<noteq> None \<and>
   put_route env0 db_down id2
     [''task'' \<mapsto> JStr (js ''Buy milk''), ''dueDate'' \<mapsto> JStr (js ''2025-01-10''),
      ''status'' \<mapsto> JStr (js ''archived'')] =
     (db_down, \<lparr>statusCode = 400, payload = Message ''Invalid status value''\<rparr>)"
proof -
  let ?b = "[''task'' \<mapsto> JStr (js ''Buy milk''), ''dueDate'' \<mapsto> JStr (js ''2025-01-10''),
      ''status'' \<mapsto> JStr (js ''archived'')]"
  have c: "decodeURIComponent env0 id2 = Some id2"
    by (simp add: env0_def id2_def)
  have v: "isValid env0 id2"
    by (simp add: isValid_def env0_def id2_def is_hex_def)
  have t: "destructure ?b ''task'' = JUndefined \<or> (\<exists>s. destructure ?b ''task'' = JStr s)"
    by (simp add: destructure_def)
  have d: "destructure ?b ''dueDate'' = JUndefined \<or> \<not> toPrimitive_throws (destructure ?b ''dueDate'')"
    by (simp add: destructure_def)
  have h: "destructure ?b ''status'' \<notin> {JUndefined, JStr pending, JStr completed}"
    by (simp add: destructure_def)
  have n: "id2 \<notin> oid ` set (docs db_down) \<and> outage db_down \<noteq> None"
    by (simp add: db_down_def rent_def id1_def id2_def)
  from put_todo_status_before_lookup [OF c v t d h, of db_down] c v n show ?thesis
    by simp
qed

text \<open>
  C5 (as stated): every Update request with a well-formed id that matches no record
  answers 404. This fails when the body has a status outside the two values: the handler
  answers 400 before it looks the id up.
\<close>

theorem put_unknown_id_counterexample:
  "isValid env0 id2 \<and> id2 \<notin> oid ` set (docs db0) \<and>
   put_todo env0 db0 id2 [''status'' \<mapsto> JStr (js ''archived'')] =
     (db0, \<lparr>statusCode = 400, payload = Message ''Invalid status value''\<rparr>)"
  by (simp add: put_todo_def destructure_def isValid_def env0_def id1_def id2_def is_hex_def Let_def
      db0_def rent_def)

text \<open>
  C5 (amended): for Update and Delete, a request whose id segment cannot be decoded does
  not reach the handler: the error handling middleware answers 500. A request whose id
  segment decodes to an id that is not a valid identifier is answered 400 with
  \<open>Invalid todo ID format\<close>. For an id segment that decodes to a valid id matching no
  stored record, while the store can be reached, Delete answers 404 with
  \<open>Todo not found\<close>, and so does Update when its body passes the checks that come before
  the lookup (task missing or a string not empty after trimming, due date missing or
  making a valid date, status missing or one of the two values). The state is unchanged
  in all these cases.
\<close>

theorem put_delete_id_errors:
  "(decodeURIComponent e segment = None \<longrightarrow>
      put_route e db segment b =
        (db, \<lparr>statusCode = 500,
              payload = Failed ''Internal server error''
                (if NODE_ENV e = Some ''development'' then Some URIError else None)\<rparr>) \<and>
      delete_route e db segment =
        (db, \<lparr>statusCode = 500,
              payload = Failed ''Internal server error''
                (if NODE_ENV e = Some ''development'' then Some URIError else None)\<rparr>)) \<and>
   (decodeURIComponent e segment = Some i \<and> \<not> isValid e i \<longrightarrow>
      put_route e db segment b =
        (db, \<lparr>statusCode = 400, payload = Message ''Invalid todo ID format''\<rparr>) \<and>
      delete_route e db segment =
        (db, \<lparr>statusCode = 400, payload = Message ''Invalid todo ID format''\<rparr>)) \<and>
   (decodeURIComponent e segment = Some i \<and> ObjectId e i = Some k \<and>
    k \<notin> oid ` set (docs db) \<and> outage db = None \<longrightarrow>
      delete_route e db segment =
        (db, \<lparr>statusCode = 404, payload = Message ''Todo not found''\<rparr>) \<and>
      (accepted_update e b \<longrightarrow>
         put_route e db segment b =
           (db, \<lparr>statusCode = 404, payload = Message ''Todo not found''\<rparr>)))"
proof (intro conjI impI)
  assume "decodeURIComponent e segment = None"
  then show "put_route e db segment b =
        (db, \<lparr>statusCode = 500,
              payload = Failed ''Internal server error''
                (if NODE_ENV e = Some ''development'' then Some URIError else None)\<rparr>)"
    and "delete_route e db segment =
        (db, \<lparr>statusCode = 500,
              payload = Failed ''Internal server error''
                (if NODE_ENV e = Some ''development'' then Some URIError else None)\<rparr>)"
    by (simp_all add: route_undecoded)
next
  assume "decodeURIComponent e segment = Some i \<and> \<not> isValid e i"
  then show "put_route e db segment b =
        (db, \<lparr>statusCode = 400, payload = Message ''Invalid todo ID format''\<rparr>)"
    and "delete_route e db segment =
        (db, \<lparr>statusCode = 400, payload = Message ''Invalid todo ID format''\<rparr>)"
    by (simp_all add: put_route_def delete_route_def put_todo_invalid_id delete_todo_def)
next
  assume h: "decodeURIComponent e segment = Some i \<and> ObjectId e i = Some k \<and>
    k \<notin> oid ` set (docs db) \<and> outage db = None"
  then have f: "find (\<lambda>t. oid t = k) (docs db) = None"
    by (simp add: find_None_oid)
  from h f show "delete_route e db segment =
      (db, \<lparr>statusCode = 404, payload = Message ''Todo not found''\<rparr>)"
    by (simp add: delete_route_def delete_todo_def isValid_def Todo_findByIdAndDelete_def)
  assume a: "accepted_update e b"
  from h have k: "ObjectId e i = Some k" by simp
  from h f show "put_route e db segment b =
      (db, \<lparr>statusCode = 404, payload = Message ''Todo not found''\<rparr>)"
    by (simp add: put_route_def put_todo_accepted [OF a k])
qed

theorem put_delete_id_errors_witness:
  "decodeURIComponent env0 ''%zz'' = None \<and>
   put_route env0 db0 ''%zz'' Map.empty =
     (db0, \<lparr>statusCode = 500, payload = Failed ''Internal server error'' None\<rparr>) \<and>
   delete_route env0 db0 ''%zz'' =
     (db0, \<lparr>statusCode = 500, payload = Failed ''Internal server error'' None\<rparr>) \<and>
   decodeURIComponent env0 ''42'' = Some ''42'' \<and> \<not> isValid env0 ''42'' \<and>
   put_route env0 db0 ''42'' Map.empty =
     (db0, \<lparr>statusCode = 400, payload = Message ''Invalid todo ID format''\<rparr>) \<and>
   delete_route env0 db0 ''42'' =
     (db0, \<lparr>statusCode = 400, payload = Message ''Invalid todo ID format''\<rparr>) \<and>
   decodeURIComponent env0 id2 = Some id2 \<and>
   ObjectId env0 id2 = Some id2 \<and> id2 \<notin> oid ` set (docs db0) \<and> outage db0 = None \<and>
   accepted_update env0 b_edit \<and>
   delete_route env0 db0 id2 = (db0, \<lparr>statusCode = 404, payload = Message ''Todo not found''\<rparr>) \<and>
   put_route env0 db0 id2 b_edit =
     (db0, \<lparr>statusCode = 404, payload = Message ''Todo not found''\<rparr>)"
proof -
  have 0: "decodeURIComponent env0 ''%zz'' = None" "NODE_ENV env0 \<noteq> Some ''development''"
    by (simp_all add: env0_def)
  have 1: "decodeURIComponent env0 ''42'' = Some ''42'' \<and> \<not> isValid env0 ''42''"
    by (simp add: isValid_def env0_def)
  have 2: "decodeURIComponent env0 id2 = Some id2 \<and> ObjectId env0 id2 = Some id2 \<and>
      id2 \<notin> oid ` set (docs db0) \<and> outage db0 = None"
    by (simp add: env0_def id2_def is_hex_def db0_def rent_def id1_def)
  have t: "trim (js '' Pay rent now'') = js ''Pay rent now''"
    by (simp add: trim_def is_space_def js_def code_unit_def)
  have 3: "accepted_update env0 b_edit"
    by (simp add: accepted_update_def valid_date_def new_Date_def b_edit_def destructure_def
        env0_def t)
  from put_delete_id_errors [of env0 "''%zz''" db0 Map.empty "''42''" id2] 0
       put_delete_id_errors [of env0 "''42''" db0 Map.empty "''42''" id2] 1
       put_delete_id_errors [of env0 id2 db0 b_edit id2 id2] 2 3
  show ?thesis
    by simp
qed

text \<open>
  C6: an Update that answers 200 has found a stored record with the id and replaced it, in
  its place, by the record it returns; the other records are untouched. The new record
  has the id and \<open>createdAt\<close> of the old one, and the store's time as \<open>updatedAt\<close>; each of
  task, due date and status that is missing from the body keeps its value; a task in
  the body is stored trimmed and is never empty, a due date in the body is stored as the
  date \<^verbatim>\<open>new Date\<close> makes of it, a status in the body is stored as given.
\<close>

theorem put_todo_partial_update:
  assumes "put_todo e db i b = (db', r)" and "statusCode r = 200"
  shows "\<exists>k old new pre post.
      ObjectId e i = Some k \<and> oid old = k \<and> (\<forall>t\<in>set pre. oid t \<noteq> k) \<and>
      docs db = pre @ old # post \<and> docs db' = pre @ new # post \<and> payload r = TodoDoc new \<and>
      oid new = oid old \<and> createdAt new = createdAt old \<and> updatedAt new = now db \<and>
      (destructure b ''task'' = JUndefined \<longrightarrow> task new = task old) \<and>
      (destructure b ''dueDate'' = JUndefined \<longrightarrow> dueDate new = dueDate old) \<and>
      (destructure b ''status'' = JUndefined \<longrightarrow> status new = status old) \<and>
      (\<forall>s. destructure b ''task'' = JStr s \<longrightarrow> task new = trim s \<and> task new \<noteq> []) \<and>
      (\<forall>ms. destructure b ''dueDate'' \<noteq> JUndefined \<and>
            new_Date e (destructure b ''dueDate'') = Inr (Time ms) \<longrightarrow> dueDate new = ms) \<and>
      (\<forall>s. destructure b ''status'' = JStr s \<longrightarrow> status new = s)"
proof -
  from put_todo_ok_accepted [OF assms] obtain k
    where a: "accepted_update e b" and k: "ObjectId e i = Some k" by blast
  note acc = put_todo_accepted [OF a k, of db]
  from assms acc have o: "outage db = None"
    by (cases "outage db") auto
  from assms acc o obtain old where f: "find (\<lambda>t. oid t = k) (docs db) = Some old"
    by (cases "find (\<lambda>t. oid t = k) (docs db)") auto
  let ?new = "apply_update (built_updateData e b) (now db) old"
  from find_split [OF f] obtain pre post
    where sp: "docs db = pre @ old # post" "oid old = k" "\<forall>y\<in>set pre. oid y \<noteq> k" by blast
  from assms acc o f have r: "payload r = TodoDoc ?new"
    and d': "docs db' = update_first (\<lambda>t. oid t = k) (apply_update (built_updateData e b) (now db)) (docs db)"
    by auto
  from d' sp have d2: "docs db' = pre @ ?new # post"
    by (simp add: update_first_split)
  note b = accepted_update_built [OF a]
  have 1: "oid ?new = oid old \<and> createdAt ?new = createdAt old \<and> updatedAt ?new = now db"
    by (simp add: apply_update_def)
  have 2: "destructure b ''task'' = JUndefined \<longrightarrow> task ?new = task old"
    by (simp add: apply_update_def built_updateData_def)
  have 3: "destructure b ''dueDate'' = JUndefined \<longrightarrow> dueDate ?new = dueDate old"
    by (simp add: apply_update_def built_updateData_def)
  have 4: "destructure b ''status'' = JUndefined \<longrightarrow> status ?new = status old"
    by (simp add: apply_update_def built_updateData_def)
  have 5: "\<forall>s. destructure b ''task'' = JStr s \<longrightarrow> task ?new = trim s \<and> task ?new \<noteq> []"
    using b(4) by (auto simp: apply_update_def built_updateData_def trim_idem)
  have 6: "\<forall>ms. destructure b ''dueDate'' \<noteq> JUndefined \<and>
            new_Date e (destructure b ''dueDate'') = Inr (Time ms) \<longrightarrow> dueDate ?new = ms"
    by (simp add: apply_update_def built_updateData_def new_Date_Inr)
  have 7: "\<forall>s. destructure b ''status'' = JStr s \<longrightarrow> status ?new = s"
    by (simp add: apply_update_def built_updateData_def)
  from k sp d2 r 1 2 3 4 5 6 7 show ?thesis
    by blast
qed

theorem put_todo_partial_update_witness:
  "put_todo env0 db1 id1 [''status'' \<mapsto> JStr pending] =
     (db1\<lparr>docs := [rent\<lparr>status := pending, updatedAt := 300\<rparr>, milk, eggs]\<rparr>,
      \<lparr>statusCode = 200, payload = TodoDoc (rent\<lparr>status := pending, updatedAt := 300\<rparr>)\<rparr>) \<and>
   (\<exists>new post. docs db1 = [] @ rent # post \<and>
      docs (db1\<lparr>docs := [rent\<lparr>status := pending, updatedAt := 300\<rparr>, milk, eggs]\<rparr>) = [] @ new # post \<and>
      oid new = oid rent \<and> createdAt new = createdAt rent \<and>
      task new = task rent \<and> dueDate new = dueDate rent \<and> status new = pending) \<and>
   put_todo env0 db0 id1 b_edit =
     (db0\<lparr>docs := [rent\<lparr>task := (js ''Pay rent now''), dueDate := 1736467200000, updatedAt := 300\<rparr>]\<rparr>,
      \<lparr>statusCode = 200,
       payload = TodoDoc (rent\<lparr>task := (js ''Pay rent now''), dueDate := 1736467200000, updatedAt := 300\<rparr>)\<rparr>) \<and>
   (\<exists>old new. payload \<lparr>statusCode = 200,
       payload = TodoDoc (rent\<lparr>task := (js ''Pay rent now''), dueDate := 1736467200000, updatedAt := 300\<rparr>)\<rparr>
         = TodoDoc new \<and>
      task new = (js ''Pay rent now'') \<and> dueDate new = 1736467200000 \<and> status new = status old \<and>
      old \<in> set (docs db0))"
proof -
  let ?b = "[''status'' \<mapsto> JStr pending]"
  let ?new = "rent\<lparr>status := pending, updatedAt := 300\<rparr>"
  let ?r = "\<lparr>statusCode = 200, payload = TodoDoc ?new\<rparr>"
  have p: "put_todo env0 db1 id1 ?b = (db1\<lparr>docs := [?new, milk, eggs]\<rparr>, ?r)"
    by (simp add: put_todo_def destructure_def isValid_def env0_def id1_def is_hex_def Let_def
        Todo_findByIdAndUpdate_def apply_update_def db1_def rent_def)
  have s: "statusCode ?r = 200"
    by simp
  from put_todo_partial_update [OF p s] obtain k old new pre post
    where h: "ObjectId env0 id1 = Some k" "oid old = k" "\<forall>t\<in>set pre. oid t \<noteq> k"
      "docs db1 = pre @ old # post"
      "docs (db1\<lparr>docs := [?new, milk, eggs]\<rparr>) = pre @ new # post"
      "oid new = oid old" "createdAt new = createdAt old"
      "destructure ?b ''task'' = JUndefined \<longrightarrow> task new = task old"
      "destructure ?b ''dueDate'' = JUndefined \<longrightarrow> dueDate new = dueDate old"
      "\<forall>s. destructure ?b ''status'' = JStr s \<longrightarrow> status new = s"
    by blast
  from h(1) have k: "k = id1"
    by (simp add: env0_def id1_def is_hex_def split: if_splits)
  have "pre = []"
  proof (cases pre)
    case Nil
    then show ?thesis .
  next
    case (Cons a list)
    with h(4) have "a = rent" by (simp add: db1_def)
    with Cons h(3) k show ?thesis by (simp add: rent_def)
  qed
  with h(4) have old: "old = rent" by (simp add: db1_def)
  from h(8,9,10) old have "task new = task rent \<and> dueDate new = dueDate rent \<and> status new = pending"
    by (simp add: destructure_def)
  with h(4,5,6,7) old \<open>pre = []\<close>
  have first: "\<exists>new post. docs db1 = [] @ rent # post \<and>
      docs (db1\<lparr>docs := [?new, milk, eggs]\<rparr>) = [] @ new # post \<and>
      oid new = oid rent \<and> createdAt new = createdAt rent \<and>
      task new = task rent \<and> dueDate new = dueDate rent \<and> status new = pending"
    by blast
  let ?new2 = "rent\<lparr>task := (js ''Pay rent now''), dueDate := 1736467200000, updatedAt := 300\<rparr>"
  let ?r2 = "\<lparr>statusCode = 200, payload = TodoDoc ?new2\<rparr>"
  have t: "trim (js '' Pay rent now'') = (js ''Pay rent now'')" "trim (js ''Pay rent now'') = (js ''Pay rent now'')"
    by (simp_all add: trim_def is_space_def js_def code_unit_def)
  have d: "destructure b_edit ''task'' = JStr (js '' Pay rent now'')"
    "destructure b_edit ''dueDate'' = JStr (js ''2025-01-10'')"
    "destructure b_edit ''status'' = JUndefined"
    by (simp_all add: b_edit_def destructure_def)
  have nd: "new_Date env0 (JStr (js ''2025-01-10'')) = Inr (Time 1736467200000)"
    by (simp add: env0_def new_Date_def)
  have v: "isValid env0 id1" "ObjectId env0 id1 = Some id1"
    by (simp_all add: isValid_def env0_def id1_def is_hex_def)
  have p2: "put_todo env0 db0 id1 b_edit = (db0\<lparr>docs := [?new2]\<rparr>, ?r2)"
    by (simp add: put_todo_def d nd v t Let_def Todo_findByIdAndUpdate_def apply_update_def
        db0_def rent_def)
  have s2: "statusCode ?r2 = 200"
    by simp
  from put_todo_partial_update [OF p2 s2] obtain old2 new2 pre2 post2
    where g: "docs db0 = pre2 @ old2 # post2" "payload ?r2 = TodoDoc new2"
      "destructure b_edit ''status'' = JUndefined \<longrightarrow> status new2 = status old2"
      "\<forall>s. destructure b_edit ''task'' = JStr s \<longrightarrow> task new2 = trim s \<and> task new2 \<noteq> []"
      "\<forall>ms. destructure b_edit ''dueDate'' \<noteq> JUndefined \<and>
          new_Date env0 (destructure b_edit ''dueDate'') = Inr (Time ms) \<longrightarrow> dueDate new2 = ms"
    by blast
  from g(1) have "old2 \<in> set (docs db0)"
    by simp
  moreover from g(3,4,5) have "task new2 = (js ''Pay rent now'') \<and> dueDate new2 = 1736467200000 \<and>
      status new2 = status old2"
    by (simp add: d nd t)
  ultimately have second: "\<exists>old new. payload ?r2 = TodoDoc new \<and>
      task new = (js ''Pay rent now'') \<and> dueDate new = 1736467200000 \<and> status new = status old \<and>
      old \<in> set (docs db0)"
    using g(2) by blast
  from p first p2 second show ?thesis
    by blast
qed

section \<open>Delete\<close>

text \<open>
  C8: for an id that denotes a stored record, while the store can be reached and no two
  stored records share an id, Delete answers 200 with the message and the record as it
  was stored, removes exactly that record, and the List that follows answers 200 with
  no record of that id.
\<close>

theorem delete_then_list:
  assumes "ObjectId e i = Some k" and "find (\<lambda>t. oid t = k) (docs db) = Some t"
      and "outage db = None" and "unique_ids db"
  shows "\<exists>db' todos.
      delete_todo e db i =
        (db', \<lparr>statusCode = 200, payload = Deleted ''Todo deleted successfully'' t\<rparr>) \<and>
      mset (docs db) = add_mset t (mset (docs db')) \<and>
      get_todos db' = (db', \<lparr>statusCode = 200, payload = TodoArray todos\<rparr>) \<and>
      k \<notin> oid ` set todos"
proof -
  from find_split [OF assms(2)] obtain pre post
    where sp: "docs db = pre @ t # post" "oid t = k" "\<forall>y\<in>set pre. oid y \<noteq> k" by blast
  let ?db' = "db\<lparr>docs := pre @ post\<rparr>"
  from assms sp have del: "delete_todo e db i =
        (?db', \<lparr>statusCode = 200, payload = Deleted ''Todo deleted successfully'' t\<rparr>)"
    by (simp add: delete_todo_def isValid_def Todo_findByIdAndDelete_def remove_first_split)
  from sp have ms: "mset (docs db) = add_mset t (mset (docs ?db'))"
    by simp
  from assms(3) have get: "get_todos ?db' =
      (?db', \<lparr>statusCode = 200, payload = TodoArray (sort_key sort_spec (pre @ post))\<rparr>)"
    by (simp add: get_todos_def Todo_find_sort_def)
  from assms(4) sp have "k \<notin> oid ` set (pre @ post)"
    by (auto simp: unique_ids_def)
  then have "k \<notin> oid ` set (sort_key sort_spec (pre @ post))"
    by simp
  with del ms get show ?thesis by blast
qed

theorem delete_then_list_witness:
  "ObjectId env0 id1 = Some id1 \<and> find (\<lambda>t. oid t = id1) (docs db1) = Some rent \<and>
   outage db1 = None \<and> unique_ids db1 \<and>
   delete_todo env0 db1 id1 =
     (db1\<lparr>docs := [milk, eggs]\<rparr>,
      \<lparr>statusCode = 200, payload = Deleted ''Todo deleted successfully'' rent\<rparr>) \<and>
   get_todos (db1\<lparr>docs := [milk, eggs]\<rparr>) =
     (db1\<lparr>docs := [milk, eggs]\<rparr>, \<lparr>statusCode = 200, payload = TodoArray [eggs, milk]\<rparr>)"
proof -
  have 1: "ObjectId env0 id1 = Some id1"
    by (simp add: env0_def id1_def is_hex_def)
  have 2: "find (\<lambda>t. oid t = id1) (docs db1) = Some rent"
    by (simp add: db1_def rent_def)
  have 3: "outage db1 = None"
    by (simp add: db1_def)
  have 4: "unique_ids db1"
    by (simp add: unique_ids_def db1_def rent_def milk_def eggs_def id1_def id2_def)
  have 5: "delete_todo env0 db1 id1 =
     (db1\<lparr>docs := [milk, eggs]\<rparr>,
      \<lparr>statusCode = 200, payload = Deleted ''Todo deleted successfully'' rent\<rparr>)"
    using 1 by (simp add: delete_todo_def isValid_def Todo_findByIdAndDelete_def db1_def rent_def
        milk_def eggs_def id1_def id2_def)
  have 6: "get_todos (db1\<lparr>docs := [milk, eggs]\<rparr>) =
     (db1\<lparr>docs := [milk, eggs]\<rparr>, \<lparr>statusCode = 200, payload = TodoArray [eggs, milk]\<rparr>)"
    by (simp add: get_todos_def Todo_find_sort_def db1_def sort_spec_def milk_def eggs_def)
  from delete_then_list [OF 1 2 3 4] 1 2 3 4 5 6 show ?thesis
    by simp
qed

section \<open>Errors of the store in the responses\<close>

text \<open>No handler reads the environment mode.\<close>

lemma store_ignores_mode:
  "isValid (e\<lparr>NODE_ENV := mode\<rparr>) = isValid e"
  "new_Date (e\<lparr>NODE_ENV := mode\<rparr>) = new_Date e"
  "built_updateData (e\<lparr>NODE_ENV := mode\<rparr>) = built_updateData e"
  "Todo_save (e\<lparr>NODE_ENV := mode\<rparr>) = Todo_save e"
  "Todo_findByIdAndUpdate (e\<lparr>NODE_ENV := mode\<rparr>) = Todo_findByIdAndUpdate e"
  "Todo_findByIdAndDelete (e\<lparr>NODE_ENV := mode\<rparr>) = Todo_findByIdAndDelete e"
  by (simp_all add: fun_eq_iff isValid_def new_Date_def built_updateData_def Todo_save_def
      Todo_findByIdAndUpdate_def Todo_findByIdAndDelete_def)

lemma handlers_ignore_mode:
  "post_todos (e\<lparr>NODE_ENV := mode\<rparr>) = post_todos e"
  "put_todo (e\<lparr>NODE_ENV := mode\<rparr>) = put_todo e"
  "delete_todo (e\<lparr>NODE_ENV := mode\<rparr>) = delete_todo e"
  unfolding fun_eq_iff post_todos_def put_todo_def delete_todo_def store_ignores_mode
  by (rule allI refl)+

text \<open>
  C9: the detail of a storage failure is part of a 500 response only in development
  mode. The handlers do not do so: whatever error the storage operation of a handler
  throws (the store out of reach, a duplicate key, a failed cast or validation), the
  \<^verbatim>\<open>catch\<close> block answers 500 and sends the error's message, in every environment
  mode. Only the error handling middleware, which handlers' errors never reach, gives
  the message in development mode and leaves it out in every other mode.
\<close>

theorem handler_errors_echoed:
  "(Todo_find_sort db = Inl err \<longrightarrow>
      get_todos db = (db, \<lparr>statusCode = 500, payload = ErrorMessage err\<rparr>)) \<and>
   (truthy (destructure b ''task'') \<and> truthy (destructure b ''dueDate'') \<and>
    js_trim (destructure b ''task'') = Inr tk \<and> new_Date e (destructure b ''dueDate'') = Inr d \<and>
    Todo_save e db tk d = (db', Inl err) \<longrightarrow>
      post_todos (e\<lparr>NODE_ENV := mode\<rparr>) db b =
        (db', \<lparr>statusCode = 500, payload = Failed ''Failed to create todo'' (Some err)\<rparr>)) \<and>
   (isValid e i \<and> (destructure b ''task'' = JUndefined \<or> (\<exists>s. destructure b ''task'' = JStr s)) \<and>
    (destructure b ''dueDate'' = JUndefined \<or> \<not> toPrimitive_throws (destructure b ''dueDate'')) \<and>
    destructure b ''status'' \<in> {JUndefined, JStr pending, JStr completed} \<and>
    Todo_findByIdAndUpdate e db i (built_updateData e b) = (db', Inl err) \<longrightarrow>
      put_todo (e\<lparr>NODE_ENV := mode\<rparr>) db i b =
        (db', \<lparr>statusCode = 500, payload = Failed ''Failed to update todo'' (Some err)\<rparr>)) \<and>
   (isValid e i \<and> Todo_findByIdAndDelete e db i = (db', Inl err) \<longrightarrow>
      delete_todo (e\<lparr>NODE_ENV := mode\<rparr>) db i =
        (db', \<lparr>statusCode = 500, payload = Failed ''Failed to delete todo'' (Some err)\<rparr>)) \<and>
   error_middleware (e\<lparr>NODE_ENV := mode\<rparr>) err =
     \<lparr>statusCode = 500,
      payload = Failed ''Internal server error''
        (if mode = Some ''development'' then Some err else None)\<rparr>"
proof (intro conjI impI)
  assume "Todo_find_sort db = Inl err"
  then show "get_todos db = (db, \<lparr>statusCode = 500, payload = ErrorMessage err\<rparr>)"
    by (simp add: get_todos_def)
next
  assume "truthy (destructure b ''task'') \<and> truthy (destructure b ''dueDate'') \<and>
    js_trim (destructure b ''task'') = Inr tk \<and> new_Date e (destructure b ''dueDate'') = Inr d \<and>
    Todo_save e db tk d = (db', Inl err)"
  then show "post_todos (e\<lparr>NODE_ENV := mode\<rparr>) db b =
        (db', \<lparr>statusCode = 500, payload = Failed ''Failed to create todo'' (Some err)\<rparr>)"
    by (simp add: handlers_ignore_mode post_todos_def Let_def)
next
  assume h: "isValid e i \<and> (destructure b ''task'' = JUndefined \<or> (\<exists>s. destructure b ''task'' = JStr s)) \<and>
    (destructure b ''dueDate'' = JUndefined \<or> \<not> toPrimitive_throws (destructure b ''dueDate'')) \<and>
    destructure b ''status'' \<in> {JUndefined, JStr pending, JStr completed} \<and>
    Todo_findByIdAndUpdate e db i (built_updateData e b) = (db', Inl err)"
  then have "put_todo e db i b =
      store_response ''Failed to update todo'' (Todo_findByIdAndUpdate e db i (built_updateData e b))"
    by (intro put_todo_store) simp_all
  with h show "put_todo (e\<lparr>NODE_ENV := mode\<rparr>) db i b =
        (db', \<lparr>statusCode = 500, payload = Failed ''Failed to update todo'' (Some err)\<rparr>)"
    by (simp add: handlers_ignore_mode store_response_def)
next
  assume "isValid e i \<and> Todo_findByIdAndDelete e db i = (db', Inl err)"
  then show "delete_todo (e\<lparr>NODE_ENV := mode\<rparr>) db i =
        (db', \<lparr>statusCode = 500, payload = Failed ''Failed to delete todo'' (Some err)\<rparr>)"
    by (simp add: handlers_ignore_mode delete_todo_def)
next
  show "error_middleware (e\<lparr>NODE_ENV := mode\<rparr>) err =
     \<lparr>statusCode = 500,
      payload = Failed ''Internal server error''
        (if mode = Some ''development'' then Some err else None)\<rparr>"
    by (simp add: error_middleware_def)
qed

theorem handler_errors_echoed_witness:
  "Todo_find_sort db_down = Inl (MongoError ''connection refused'') \<and>
   get_todos db_down =
     (db_down, \<lparr>statusCode = 500, payload = ErrorMessage (MongoError ''connection refused'')\<rparr>) \<and>
   truthy (destructure b_milk ''task'') \<and> truthy (destructure b_milk ''dueDate'') \<and>
   js_trim (destructure b_milk ''task'') = Inr (js ''Buy milk'') \<and>
   new_Date env0 (destructure b_milk ''dueDate'') = Inr (Time 1736467200000) \<and>
   Todo_save env0 db_down (js ''Buy milk'') (Time 1736467200000) =
     (db_down\<lparr>issued := 3\<rparr>, Inl (MongoError ''connection refused'')) \<and>
   post_todos (env0\<lparr>NODE_ENV := Some ''production''\<rparr>) db_down b_milk =
     (db_down\<lparr>issued := 3\<rparr>,
      \<lparr>statusCode = 500,
       payload = Failed ''Failed to create todo'' (Some (MongoError ''connection refused''))\<rparr>) \<and>
   isValid env0 id1 \<and>
   Todo_findByIdAndUpdate env0 db_down id1 (built_updateData env0 [''status'' \<mapsto> JStr pending]) =
     (db_down, Inl (MongoError ''connection refused'')) \<and>
   put_todo (env0\<lparr>NODE_ENV := Some ''production''\<rparr>) db_down id1 [''status'' \<mapsto> JStr pending] =
     (db_down, \<lparr>statusCode = 500,
                payload = Failed ''Failed to update todo'' (Some (MongoError ''connection refused''))\<rparr>) \<and>
   Todo_findByIdAndDelete env0 db_down id1 = (db_down, Inl (MongoError ''connection refused'')) \<and>
   delete_todo (env0\<lparr>NODE_ENV := Some ''production''\<rparr>) db_down id1 =
     (db_down, \<lparr>statusCode = 500,
                payload = Failed ''Failed to delete todo'' (Some (MongoError ''connection refused''))\<rparr>) \<and>
   error_middleware (env0\<lparr>NODE_ENV := Some ''production''\<rparr>) (MongoError ''connection refused'') =
     \<lparr>statusCode = 500, payload = Failed ''Internal server error'' None\<rparr> \<and>
   error_middleware (env0\<lparr>NODE_ENV := Some ''development''\<rparr>) (MongoError ''connection refused'') =
     \<lparr>statusCode = 500,
      payload = Failed ''Internal server error'' (Some (MongoError ''connection refused''))\<rparr>"
proof -
  let ?e = "MongoError ''connection refused''"
  let ?b = "[''status'' \<mapsto> JStr pending]"
  have t: "trim (js ''  Buy milk '') = js ''Buy milk''" "trim (js ''Buy milk'') = js ''Buy milk''"
    by (simp_all add: trim_def is_space_def js_def code_unit_def)
  have g: "Todo_find_sort db_down = Inl ?e"
    by (simp add: Todo_find_sort_def db_down_def)
  have p: "truthy (destructure b_milk ''task'')" "truthy (destructure b_milk ''dueDate'')"
    "js_trim (destructure b_milk ''task'') = Inr (js ''Buy milk'')"
    "new_Date env0 (destructure b_milk ''dueDate'') = Inr (Time 1736467200000)"
    by (simp_all add: b_milk_def destructure_def t new_Date_def env0_def)
  have s: "Todo_save env0 db_down (js ''Buy milk'') (Time 1736467200000) =
     (db_down\<lparr>issued := 3\<rparr>, Inl ?e)"
    by (simp add: Todo_save_def t db_down_def Let_def)
  have v: "isValid env0 id1"
    by (simp add: isValid_def env0_def id1_def is_hex_def)
  have u: "destructure ?b ''task'' = JUndefined" "destructure ?b ''dueDate'' = JUndefined"
    "destructure ?b ''status'' = JStr pending"
    by (simp_all add: destructure_def)
  have f: "Todo_findByIdAndUpdate env0 db_down id1 (built_updateData env0 ?b) = (db_down, Inl ?e)"
    using v by (simp add: Todo_findByIdAndUpdate_def built_updateData_def u isValid_def db_down_def
        split: option.splits)
  have d: "Todo_findByIdAndDelete env0 db_down id1 = (db_down, Inl ?e)"
    using v by (simp add: Todo_findByIdAndDelete_def isValid_def db_down_def split: option.splits)
  from handler_errors_echoed [where db = db_down and err = ?e and b = b_milk and e = env0
      and tk = "js ''Buy milk''" and d = "Time 1736467200000" and db' = "db_down\<lparr>issued := 3\<rparr>"
      and mode = "Some ''production''" and i = id1]
    handler_errors_echoed [where db = db_down and err = ?e and b = ?b and e = env0
      and db' = db_down and mode = "Some ''production''" and i = id1]
    handler_errors_echoed [where err = ?e and e = env0 and mode = "Some ''development''"]
    g p s v u f d
  show ?thesis
    by simp
qed

section \<open>Toggle\<close>

text \<open>
  C7: for an id in the form the server issues, a cached task of that id whose status is
  pending or completed, and a reachable store holding a record of that id, two calls of
  \<open>toggleTodoStatus\<close> both succeed; the first one changes the status, and after the
  second one the task found in the cache and the record found in the store have the
  status the cached task had at the start.
\<close>

theorem toggle_twice:
  assumes c: "ObjectId e i = Some i"
    and ft: "find (\<lambda>t. oid t = i) todos = Some t"
    and st: "status t \<in> {pending, completed}"
    and o: "outage db = None"
    and fd: "find (\<lambda>t. oid t = i) (docs db) = Some d"
  shows "\<exists>u1 todos1 db1 u2 todos2 db2.
      toggleTodoStatus e i (todos, db) = (Inr u1, todos1, db1) \<and>
      toggleTodoStatus e i (todos1, db1) = (Inr u2, todos2, db2) \<and>
      status u1 \<noteq> status t \<and>
      find (\<lambda>t. oid t = i) todos2 = Some u2 \<and>
      find (\<lambda>t. oid t = i) (docs db2) = Some u2 \<and>
      status u2 = status t"
proof -
  from find_split [OF ft] obtain pre post
    where t: "todos = pre @ t # post" "\<forall>y\<in>set pre. oid y \<noteq> i" "oid t = i" by blast
  from find_split [OF fd] obtain dpre dpost
    where d: "docs db = dpre @ d # dpost" "\<forall>y\<in>set dpre. oid y \<noteq> i" "oid d = i" by blast
  define u1 where "u1 = d\<lparr>status := flipped (status t), updatedAt := now db\<rparr>"
  define db1 where "db1 = db\<lparr>docs := dpre @ u1 # dpost\<rparr>"
  define u2 where "u2 = u1\<lparr>status := flipped (status u1), updatedAt := now db1\<rparr>"
  have 1: "toggleTodoStatus e i (todos, db) = (Inr u1, pre @ u1 # post, db1)"
    unfolding db1_def by (rule toggle_step [OF c t d o u1_def])
  have i1: "oid u1 = i"
    using d(3) by (simp add: u1_def)
  have 2: "toggleTodoStatus e i (pre @ u1 # post, db1) =
      (Inr u2, pre @ u2 # post, db1\<lparr>docs := dpre @ u2 # dpost\<rparr>)"
    by (rule toggle_step [OF c refl t(2) i1 _ d(2) i1 _ u2_def]) (simp_all add: db1_def o)
  have i2: "oid u2 = i"
    using i1 by (simp add: u2_def)
  have s1: "status u1 \<noteq> status t"
    using st by (auto simp: u1_def flipped_def)
  have s2: "status u2 = status t"
    using st by (simp add: u2_def u1_def flipped_twice)
  have f2: "find (\<lambda>t. oid t = i) (pre @ u2 # post) = Some u2"
    using t(2) i2 by (simp add: find_append_miss)
  have g2: "find (\<lambda>t. oid t = i) (docs (db1\<lparr>docs := dpre @ u2 # dpost\<rparr>)) = Some u2"
    using d(2) i2 by (simp add: find_append_miss)
  from 1 2 s1 s2 f2 g2 show ?thesis by blast
qed

theorem toggle_twice_witness:
  "ObjectId env0 id1 = Some id1 \<and> find (\<lambda>t. oid t = id1) [milk, rent] = Some rent \<and>
   status rent = completed \<and> outage db1 = None \<and>
   find (\<lambda>t. oid t = id1) (docs db1) = Some rent \<and>
   (\<exists>u1 todos1 db' u2 todos2 db''.
      toggleTodoStatus env0 id1 ([milk, rent], db1) = (Inr u1, todos1, db') \<and>
      toggleTodoStatus env0 id1 (todos1, db') = (Inr u2, todos2, db'') \<and>
      status u1 \<noteq> completed \<and>
      find (\<lambda>t. oid t = id1) todos2 = Some u2 \<and>
      find (\<lambda>t. oid t = id1) (docs db'') = Some u2 \<and>
      status u2 = completed)"
proof -
  have 1: "ObjectId env0 id1 = Some id1"
    by (simp add: env0_def id1_def is_hex_def)
  have 2: "find (\<lambda>t. oid t = id1) [milk, rent] = Some rent"
    by (simp add: milk_def rent_def id1_def)
  have 3: "status rent = completed"
    by (simp add: rent_def)
  then have st: "status rent \<in> {pending, completed}"
    by simp
  have 4: "outage db1 = None"
    by (simp add: db1_def)
  have 5: "find (\<lambda>t. oid t = id1) (docs db1) = Some rent"
    by (simp add: db1_def rent_def)
  from toggle_twice [OF 1 2 st 4 5] 1 2 3 4 5 show ?thesis
    by simp
qed

end
